theory Spec2Isabelle
  imports Main "HOL-Library.Char_ord" "HOL-Library.List_Lexorder" "HOL-Library.Product_Lexorder"
begin

section \<open>JavaScript values used by the appointment actions\<close>

text \<open>
  Strings are character lists. A JavaScript value that may be \<open>null\<close> or \<open>undefined\<close>
  is an \<open>option\<close>. \<open>!s\<close> on a string is true exactly for the empty string, and
  \<open>a || b\<close> yields \<open>b\<close> when \<open>a\<close> is \<open>null\<close>, \<open>undefined\<close> or empty.
\<close>

definition truthy :: "string option \<Rightarrow> bool" where
  "truthy s = (case s of None \<Rightarrow> False | Some x \<Rightarrow> x \<noteq> [])"

definition or_else :: "string option \<Rightarrow> string \<Rightarrow> string" where
  "or_else s d = (case s of None \<Rightarrow> d | Some x \<Rightarrow> if x = [] then d else x)"

text \<open>
  \<open>String.prototype.trim\<close> removes white space and line terminators from both ends. A
  character here is a code unit below 256; of those, the white space and line terminators
  of the language are TAB, LF, VT, FF, CR, SPACE and NO-BREAK SPACE (U+00A0).
\<close>

definition isWhiteSpace :: "char \<Rightarrow> bool" where
  "isWhiteSpace c =
     (c \<in> set [CHR 0x09, CHR 0x0A, CHR 0x0B, CHR 0x0C, CHR 0x0D, CHR '' '', CHR 0xA0])"

definition trim :: "string \<Rightarrow> string" where
  "trim s = rev (dropWhile isWhiteSpace (rev (dropWhile isWhiteSpace s)))"

text \<open>\<open>s.split("T")[0]\<close>: the part of \<open>s\<close> before its first \<open>T\<close> (all of \<open>s\<close> if there is none).\<close>

definition split_T_0 :: "string \<Rightarrow> string" where
  "split_T_0 s = takeWhile (\<lambda>c. c \<noteq> CHR ''T'') s"

subsection \<open>Dates\<close>

text \<open>
  A valid \<open>Date\<close> is its time value, the milliseconds since 1970-01-01T00:00:00Z.
  \<open>new Date(s)\<close> is not fixed by the language for every string; the actions take it as
  the parameter \<open>newDate\<close>, with \<open>None\<close> for an Invalid Date.
\<close>

type_synonym jsdate = int

definition msPerDay :: int where
  "msPerDay = 86400000"

text \<open>Year, month and day of month (proleptic Gregorian, UTC) of a day number.\<close>

definition utcDate :: "int \<Rightarrow> int \<times> int \<times> int" where
  "utcDate days =
     (let z = days + 719468;
          era = z div 146097;
          doe = z mod 146097;
          yoe = (doe - doe div 1460 + doe div 36524 - doe div 146096) div 365;
          doy = doe - (365 * yoe + yoe div 4 - yoe div 100);
          mp = (5 * doy + 2) div 153;
          d = doy - (153 * mp + 2) div 5 + 1;
          m = (if mp < 10 then mp + 3 else mp - 9);
          y = yoe + era * 400 + (if m \<le> 2 then 1 else 0)
      in (y, m, d))"

text \<open>\<open>digits k n\<close>: the \<open>k\<close> low decimal digits of \<open>n\<close>, most significant first.\<close>

fun digits :: "nat \<Rightarrow> nat \<Rightarrow> string" where
  "digits 0 n = []"
| "digits (Suc k) n = digits k (n div 10) @ [''0123456789'' ! (n mod 10)]"

definition isoYear :: "int \<Rightarrow> string" where
  "isoYear y =
     (if 0 \<le> y \<and> y \<le> 9999 then digits 4 (nat y)
      else (if y < 0 then ''-'' else ''+'') @ digits 6 (nat \<bar>y\<bar>))"

definition isoDate :: "jsdate \<Rightarrow> string" where
  "isoDate t =
     (case utcDate (t div msPerDay) of
        (y, m, d) \<Rightarrow> isoYear y @ ''-'' @ digits 2 (nat m) @ ''-'' @ digits 2 (nat d))"

definition isoTime :: "jsdate \<Rightarrow> string" where
  "isoTime t =
     (let ms = nat (t mod msPerDay)
      in digits 2 (ms div 3600000) @ '':'' @ digits 2 (ms div 60000 mod 60) @ '':'' @
         digits 2 (ms div 1000 mod 60) @ ''.'' @ digits 3 (ms mod 1000))"

definition toISOString :: "jsdate \<Rightarrow> string" where
  "toISOString t = isoDate t @ ''T'' @ isoTime t @ ''Z''"

section \<open>Data model\<close>

text \<open>
  Modelled from the spec: the status enumeration is declared in the database schema, which
  is not among the sources; the actions name \<open>CONFIRMED\<close> and \<open>COMPLETED\<close>, the
  specification adds \<open>CANCELLED\<close>.
\<close>

datatype AppointmentStatus = CONFIRMED | COMPLETED | CANCELLED

text \<open>
  Modelled from the spec: the tables User, Doctor and Appointment are declared in the
  database schema, which is not among the sources. The columns here are those the actions
  read and write. Row keys are generated by the database; they are opaque and modelled as
  numbers.
\<close>

type_synonym ident = nat

record user =
  u_id :: ident
  u_clerkId :: string
  u_email :: string
  u_firstName :: "string option"
  u_lastName :: "string option"
  u_phone :: "string option"

record doctor =
  d_id :: string
  d_name :: string
  d_imageUrl :: "string option"

record appointment =
  a_id :: ident
  a_userId :: ident
  a_doctorId :: string
  a_date :: jsdate
  a_time :: string
  a_reason :: string
  a_status :: AppointmentStatus
  a_createdAt :: jsdate

text \<open>The profile the identity provider returns from \<open>currentUser()\<close>.\<close>

record clerk_user =
  c_id :: string
  c_firstName :: "string option"
  c_lastName :: "string option"
  c_emailAddresses :: "string list"
  c_phoneNumbers :: "string list"

subsection \<open>Errors and the console\<close>

datatype prisma_failure =
  Unavailable | UniqueConstraint | ForeignKeyConstraint | RecordNotFound | ValidationError

datatype error =
  Error string
| TypeError
| PrismaError prisma_failure

text \<open>A console entry is the message and the value logged with it; the messages are
  kept without the emoji some of them start with.\<close>

datatype log_arg = ErrArg error | StrArg string

datatype log_entry = ConsoleLog string log_arg | ConsoleError string log_arg

subsection \<open>The world an action runs in\<close>

text \<open>
  The session (\<open>auth()\<close>, \<open>currentUser()\<close>), the three tables, the database's key
  counter and clock, the console, and the persistence layer's health: \<open>calls\<close> counts the
  persistence calls made so far, and the call numbered \<open>n\<close> fails for a reason outside the
  tables (connection lost, timeout) exactly when \<open>faulty n\<close>.
\<close>

record world =
  authUserId :: "string option"
  clerkUser :: "clerk_user option"
  users :: "user list"
  doctors :: "doctor list"
  appointments :: "appointment list"
  nextId :: ident
  clock :: jsdate
  calls :: nat
  faulty :: "nat \<Rightarrow> bool"
  console :: "log_entry list"

type_synonym 'a action = "world \<Rightarrow> (error + 'a) \<times> world"

definition return :: "'a \<Rightarrow> 'a action" where
  "return x = (\<lambda>w. (Inr x, w))"

definition throw :: "error \<Rightarrow> 'a action" where
  "throw e = (\<lambda>w. (Inl e, w))"

definition bind :: "'a action \<Rightarrow> ('a \<Rightarrow> 'b action) \<Rightarrow> 'b action" where
  "bind m f = (\<lambda>w. case m w of (Inl e, w') \<Rightarrow> (Inl e, w') | (Inr x, w') \<Rightarrow> f x w')"

definition try_catch :: "'a action \<Rightarrow> (error \<Rightarrow> 'a action) \<Rightarrow> 'a action" where
  "try_catch m h = (\<lambda>w. case m w of (Inl e, w') \<Rightarrow> h e w' | (Inr x, w') \<Rightarrow> (Inr x, w'))"

text \<open>\<open>Promise.all([p, q])\<close>: both calls are issued; the result is an error if either fails.\<close>

definition promise_all2 :: "'a action \<Rightarrow> 'b action \<Rightarrow> ('a \<times> 'b) action" where
  "promise_all2 p q =
     (\<lambda>w. case p w of (r1, w1) \<Rightarrow>
           (case q w1 of (r2, w2) \<Rightarrow>
              ((case r1 of Inl e \<Rightarrow> Inl e
                | Inr x \<Rightarrow> (case r2 of Inl e \<Rightarrow> Inl e | Inr y \<Rightarrow> Inr (x, y))), w2)))"

definition lift :: "error + 'a \<Rightarrow> 'a action" where
  "lift r = (\<lambda>w. (r, w))"

definition auth :: "string option action" where
  "auth = (\<lambda>w. (Inr (authUserId w), w))"

definition currentUser :: "clerk_user option action" where
  "currentUser = (\<lambda>w. (Inr (clerkUser w), w))"

definition console_log :: "string \<Rightarrow> log_arg \<Rightarrow> unit action" where
  "console_log msg x = (\<lambda>w. (Inr (), w\<lparr>console := console w @ [ConsoleLog msg x]\<rparr>))"

definition console_error :: "string \<Rightarrow> log_arg \<Rightarrow> unit action" where
  "console_error msg x = (\<lambda>w. (Inr (), w\<lparr>console := console w @ [ConsoleError msg x]\<rparr>))"

section \<open>The persistence layer\<close>

text \<open>
  Every persistence call is counted, and fails with \<open>Unavailable\<close> when the layer is
  faulty at that call; otherwise it runs on the tables.
\<close>

definition dbCall :: "'a action \<Rightarrow> 'a action" where
  "dbCall f =
     (\<lambda>w. let w1 = w\<lparr>calls := Suc (calls w)\<rparr>
          in if faulty w (calls w) then (Inl (PrismaError Unavailable), w1) else f w1)"

fun update_first :: "('a \<Rightarrow> bool) \<Rightarrow> ('a \<Rightarrow> 'a) \<Rightarrow> 'a list \<Rightarrow> 'a list" where
  "update_first P f [] = []"
| "update_first P f (x # xs) = (if P x then f x # xs else x # update_first P f xs)"

subsection \<open>Users\<close>

text \<open>
  \<open>clerkId\<close> is a unique column: \<open>findUnique\<close> and \<open>upsert\<close> select by it, and a second
  row with the same value is rejected.
\<close>

record user_create_data =
  uc_clerkId :: string
  uc_email :: string
  uc_firstName :: "string option"
  uc_lastName :: "string option"
  uc_phone :: "string option"

text \<open>In the data of an update, a field that is \<open>undefined\<close> (\<open>None\<close> here) is left as it is.\<close>

record user_update_data =
  uu_email :: "string option"
  uu_firstName :: "string option option"
  uu_lastName :: "string option option"
  uu_phone :: "string option option"

definition new_user :: "ident \<Rightarrow> user_create_data \<Rightarrow> user" where
  "new_user i d =
     \<lparr>u_id = i, u_clerkId = uc_clerkId d, u_email = uc_email d,
      u_firstName = uc_firstName d, u_lastName = uc_lastName d, u_phone = uc_phone d\<rparr>"

definition apply_user_update :: "user_update_data \<Rightarrow> user \<Rightarrow> user" where
  "apply_user_update d u =
     u\<lparr>u_email := (case uu_email d of None \<Rightarrow> u_email u | Some x \<Rightarrow> x),
       u_firstName := (case uu_firstName d of None \<Rightarrow> u_firstName u | Some x \<Rightarrow> x),
       u_lastName := (case uu_lastName d of None \<Rightarrow> u_lastName u | Some x \<Rightarrow> x),
       u_phone := (case uu_phone d of None \<Rightarrow> u_phone u | Some x \<Rightarrow> x)\<rparr>"

definition prisma_user_findUnique :: "string \<Rightarrow> user option action" where
  "prisma_user_findUnique cid =
     dbCall (\<lambda>w. (Inr (find (\<lambda>u. u_clerkId u = cid) (users w)), w))"

definition prisma_user_create :: "user_create_data \<Rightarrow> user action" where
  "prisma_user_create d =
     dbCall (\<lambda>w.
       if find (\<lambda>u. u_clerkId u = uc_clerkId d) (users w) \<noteq> None
       then (Inl (PrismaError UniqueConstraint), w)
       else (let u = new_user (nextId w) d
             in (Inr u, w\<lparr>users := users w @ [u], nextId := Suc (nextId w)\<rparr>)))"

definition prisma_user_upsert ::
    "string \<Rightarrow> user_update_data \<Rightarrow> user_create_data \<Rightarrow> user action" where
  "prisma_user_upsert cid upd crt =
     dbCall (\<lambda>w.
       case find (\<lambda>u. u_clerkId u = cid) (users w) of
         Some u \<Rightarrow>
           (Inr (apply_user_update upd u),
            w\<lparr>users := update_first (\<lambda>u. u_clerkId u = cid) (apply_user_update upd) (users w)\<rparr>)
       | None \<Rightarrow>
           (let u = new_user (nextId w) crt
            in (Inr u, w\<lparr>users := users w @ [u], nextId := Suc (nextId w)\<rparr>)))"

subsection \<open>Appointments\<close>

record user_select =
  s_firstName :: "string option"
  s_lastName :: "string option"
  s_email :: string

record doctor_select =
  s_name :: string
  s_imageUrl :: "string option"

text \<open>An appointment row with its \<open>include\<close>d user and doctor.\<close>

record appointment_incl =
  i_row :: appointment
  i_user :: "user_select option"
  i_doctor :: "doctor_select option"

definition include_user_doctor :: "world \<Rightarrow> appointment \<Rightarrow> appointment_incl" where
  "include_user_doctor w a =
     \<lparr>i_row = a,
      i_user = map_option
         (\<lambda>u. \<lparr>s_firstName = u_firstName u, s_lastName = u_lastName u, s_email = u_email u\<rparr>)
         (find (\<lambda>u. u_id u = a_userId a) (users w)),
      i_doctor = map_option (\<lambda>d. \<lparr>s_name = d_name d, s_imageUrl = d_imageUrl d\<rparr>)
         (find (\<lambda>d. d_id d = a_doctorId a) (doctors w))\<rparr>"

datatype appointment_orderBy = NoOrder | CreatedAtDesc | DateAscTimeAsc

text \<open>
  \<open>orderBy\<close>: rows by descending \<open>createdAt\<close>, or by ascending \<open>date\<close> and then ascending
  \<open>time\<close>. Strings are compared as the lists of their characters.
\<close>

fun order_rows :: "appointment_orderBy \<Rightarrow> appointment list \<Rightarrow> appointment list" where
  "order_rows NoOrder rows = rows"
| "order_rows CreatedAtDesc rows = sort_key (\<lambda>a. - a_createdAt a) rows"
| "order_rows DateAscTimeAsc rows = sort_key (\<lambda>a. (a_date a, a_time a)) rows"

definition prisma_appointment_findMany ::
    "(appointment \<Rightarrow> bool) \<Rightarrow> appointment_orderBy \<Rightarrow> appointment_incl list action" where
  "prisma_appointment_findMany wh ob =
     dbCall (\<lambda>w. (Inr (map (include_user_doctor w) (order_rows ob (filter wh (appointments w)))), w))"

definition prisma_appointment_count :: "(appointment \<Rightarrow> bool) \<Rightarrow> nat action" where
  "prisma_appointment_count wh = dbCall (\<lambda>w. (Inr (length (filter wh (appointments w))), w))"

record appointment_create_data =
  ac_userId :: ident
  ac_doctorId :: string
  ac_date :: "jsdate option"
  ac_time :: string
  ac_reason :: string
  ac_status :: AppointmentStatus

text \<open>
  An Invalid Date is rejected before the database is asked. The user and the doctor of a
  new row must exist. The new row gets a fresh key and the current time as \<open>createdAt\<close>.
\<close>

definition prisma_appointment_create :: "appointment_create_data \<Rightarrow> appointment_incl action" where
  "prisma_appointment_create d =
     (case ac_date d of
        None \<Rightarrow> throw (PrismaError ValidationError)
      | Some dt \<Rightarrow>
          dbCall (\<lambda>w.
            if find (\<lambda>u. u_id u = ac_userId d) (users w) = None
               \<or> find (\<lambda>x. d_id x = ac_doctorId d) (doctors w) = None
            then (Inl (PrismaError ForeignKeyConstraint), w)
            else (let a = \<lparr>a_id = nextId w, a_userId = ac_userId d, a_doctorId = ac_doctorId d,
                            a_date = dt, a_time = ac_time d, a_reason = ac_reason d,
                            a_status = ac_status d, a_createdAt = clock w\<rparr>;
                      w' = w\<lparr>appointments := appointments w @ [a], nextId := Suc (nextId w)\<rparr>
                  in (Inr (include_user_doctor w' a), w'))))"

definition prisma_appointment_update :: "ident \<Rightarrow> AppointmentStatus \<Rightarrow> appointment action" where
  "prisma_appointment_update i st =
     dbCall (\<lambda>w.
       case find (\<lambda>a. a_id a = i) (appointments w) of
         None \<Rightarrow> (Inl (PrismaError RecordNotFound), w)
       | Some a \<Rightarrow>
           (Inr (a\<lparr>a_status := st\<rparr>),
            w\<lparr>appointments :=
                 update_first (\<lambda>a. a_id a = i) (\<lambda>a. a\<lparr>a_status := st\<rparr>) (appointments w)\<rparr>))"

section \<open>The appointment actions\<close>

text \<open>What \<open>transformAppointment\<close> returns: the row and its included objects, with the
  display fields added and \<open>date\<close> replaced by a string.\<close>

record appointment_view =
  v_id :: ident
  v_userId :: ident
  v_doctorId :: string
  v_time :: string
  v_reason :: string
  v_status :: AppointmentStatus
  v_createdAt :: jsdate
  v_user :: user_select
  v_doctor :: doctor_select
  patientName :: string
  patientEmail :: string
  doctorName :: string
  doctorImageUrl :: string
  v_date :: string

text \<open>Reading a property of an included object that is \<open>null\<close> raises a \<open>TypeError\<close>.\<close>

definition transformAppointment :: "appointment_incl \<Rightarrow> error + appointment_view" where
  "transformAppointment appointment =
     (case i_user appointment of
        None \<Rightarrow> Inl TypeError
      | Some usr \<Rightarrow>
          (case i_doctor appointment of
             None \<Rightarrow> Inl TypeError
           | Some doc \<Rightarrow>
               Inr \<lparr>v_id = a_id (i_row appointment),
                    v_userId = a_userId (i_row appointment),
                    v_doctorId = a_doctorId (i_row appointment),
                    v_time = a_time (i_row appointment),
                    v_reason = a_reason (i_row appointment),
                    v_status = a_status (i_row appointment),
                    v_createdAt = a_createdAt (i_row appointment),
                    v_user = usr,
                    v_doctor = doc,
                    patientName =
                      trim (or_else (s_firstName usr) [] @ '' '' @ or_else (s_lastName usr) []),
                    patientEmail = s_email usr,
                    doctorName = s_name doc,
                    doctorImageUrl = or_else (s_imageUrl doc) [],
                    v_date = split_T_0 (toISOString (a_date (i_row appointment)))\<rparr>))"

text \<open>\<open>xs.map(f)\<close> for an \<open>f\<close> that may throw: the first error ends the mapping.\<close>

fun map_throwing :: "('a \<Rightarrow> error + 'b) \<Rightarrow> 'a list \<Rightarrow> error + 'b list" where
  "map_throwing f [] = Inr []"
| "map_throwing f (x # xs) =
     (case f x of
        Inl e \<Rightarrow> Inl e
      | Inr y \<Rightarrow> (case map_throwing f xs of Inl e \<Rightarrow> Inl e | Inr ys \<Rightarrow> Inr (y # ys)))"

text \<open>\<open>a ?? ""\<close>: the empty string for \<open>null\<close> and \<open>undefined\<close>.\<close>

definition or_empty :: "string option \<Rightarrow> string" where
  "or_empty s = (case s of None \<Rightarrow> [] | Some x \<Rightarrow> x)"

subsection \<open>The user sync of the appointment actions\<close>

text \<open>
  \<open>ensureUserExists(clerkId)\<close> looks the user up and creates the row if there is none.
  It suspends at each persistence call: \<open>ensureUserExists_lookup\<close> is the function up to
  the answer of \<open>findUnique\<close>, \<open>ensureUserExists_resume\<close> is the rest.
\<close>

definition ensureUserExists_lookup :: "string \<Rightarrow> (clerk_user \<times> user option) action" where
  "ensureUserExists_lookup clerkId =
     bind currentUser (\<lambda>clerkData.
       case clerkData of
         None \<Rightarrow> throw (Error ''No Clerk user found'')
       | Some cd \<Rightarrow> bind (prisma_user_findUnique clerkId) (\<lambda>found. return (cd, found)))"

definition ensureUserExists_data :: "string \<Rightarrow> clerk_user \<Rightarrow> string \<Rightarrow> user_create_data" where
  "ensureUserExists_data clerkId cd em =
     \<lparr>uc_clerkId = clerkId,
      uc_email = em,
      uc_firstName = Some (or_empty (c_firstName cd)),
      uc_lastName = Some (or_empty (c_lastName cd)),
      uc_phone = Some (case c_phoneNumbers cd of [] \<Rightarrow> [] | p # _ \<Rightarrow> p)\<rparr>"

definition ensureUserExists_resume :: "string \<Rightarrow> clerk_user \<times> user option \<Rightarrow> user action" where
  "ensureUserExists_resume clerkId = (\<lambda>(cd, found).
     case found of
       Some usr \<Rightarrow> return usr
     | None \<Rightarrow>
         (case c_emailAddresses cd of
            [] \<Rightarrow> throw TypeError
          | em # _ \<Rightarrow>
              bind (prisma_user_create (ensureUserExists_data clerkId cd em)) (\<lambda>usr.
              bind (console_log ''New user created in Prisma:'' (StrArg (u_email usr)))
                (\<lambda>_. return usr))))"

definition ensureUserExists :: "string \<Rightarrow> user action" where
  "ensureUserExists clerkId =
     bind (ensureUserExists_lookup clerkId) (ensureUserExists_resume clerkId)"

subsection \<open>Queries\<close>

text \<open>Each exported action is a \<open>try\<close> block (\<open>_try\<close>) under a \<open>catch\<close> that logs the error.\<close>

definition getAppointments_try :: "appointment_view list action" where
  "getAppointments_try =
     bind (prisma_appointment_findMany (\<lambda>a. True) CreatedAtDesc) (\<lambda>appointments.
       lift (map_throwing transformAppointment appointments))"

definition getAppointments :: "appointment_view list action" where
  "getAppointments =
     try_catch getAppointments_try
       (\<lambda>err.
          bind (console_log ''Error fetching appointments:'' (ErrArg err))
            (\<lambda>_. throw (Error ''Failed to fetch appointments'')))"

definition getUserAppointments_try :: "appointment_view list action" where
  "getUserAppointments_try =
     bind auth (\<lambda>userId.
       if \<not> truthy userId then throw (Error ''You must be logged in to view appointments'')
       else
         bind (ensureUserExists (the userId)) (\<lambda>usr.
         bind (prisma_appointment_findMany (\<lambda>a. a_userId a = u_id usr) DateAscTimeAsc)
           (\<lambda>appointments. lift (map_throwing transformAppointment appointments))))"

definition getUserAppointments :: "appointment_view list action" where
  "getUserAppointments =
     try_catch getUserAppointments_try
       (\<lambda>err.
          bind (console_error ''Error fetching user appointments:'' (ErrArg err))
            (\<lambda>_. throw (Error ''Failed to fetch user appointments'')))"

record appointment_stats =
  totalAppointments :: nat
  completedAppointments :: nat

definition getUserAppointmentStats_try :: "appointment_stats action" where
  "getUserAppointmentStats_try =
     bind auth (\<lambda>userId.
       if \<not> truthy userId then throw (Error ''You must be authenticated'')
       else
         bind (ensureUserExists (the userId)) (\<lambda>usr.
         bind (promise_all2
                 (prisma_appointment_count (\<lambda>a. a_userId a = u_id usr))
                 (prisma_appointment_count
                    (\<lambda>a. a_userId a = u_id usr \<and> a_status a = COMPLETED)))
           (\<lambda>(totalCount, completedCount).
              return \<lparr>totalAppointments = totalCount,
                      completedAppointments = completedCount\<rparr>)))"

definition getUserAppointmentStats :: "appointment_stats action" where
  "getUserAppointmentStats =
     try_catch getUserAppointmentStats_try
       (\<lambda>err.
          bind (console_error ''Error fetching user appointment stats:'' (ErrArg err))
            (\<lambda>_. return \<lparr>totalAppointments = 0, completedAppointments = 0\<rparr>))"

text \<open>A query whose \<open>where\<close> holds an Invalid Date is rejected before the database is
  asked. \<open>select: { time: true }\<close> keeps the time label of each row found.\<close>

definition getBookedTimeSlots_try ::
    "(string \<Rightarrow> jsdate option) \<Rightarrow> string \<Rightarrow> string \<Rightarrow> string list action" where
  "getBookedTimeSlots_try newDate doctorId date =
     bind (case newDate date of
             None \<Rightarrow> throw (PrismaError ValidationError)
           | Some dt \<Rightarrow>
               prisma_appointment_findMany
                 (\<lambda>a. a_doctorId a = doctorId \<and> a_date a = dt
                       \<and> a_status a \<in> set [CONFIRMED, COMPLETED])
                 NoOrder)
       (\<lambda>appointments. return (map (\<lambda>a. a_time (i_row a)) appointments))"

definition getBookedTimeSlots ::
    "(string \<Rightarrow> jsdate option) \<Rightarrow> string \<Rightarrow> string \<Rightarrow> string list action" where
  "getBookedTimeSlots newDate doctorId date =
     try_catch (getBookedTimeSlots_try newDate doctorId date)
       (\<lambda>err.
          bind (console_error ''Error fetching booked time slots:'' (ErrArg err))
            (\<lambda>_. return []))"

subsection \<open>Booking and status update\<close>

record BookAppointmentInput =
  doctorId :: string
  date :: string
  time :: string
  reason :: "string option"

definition bookAppointment_try ::
    "(string \<Rightarrow> jsdate option) \<Rightarrow> BookAppointmentInput \<Rightarrow> appointment_view action" where
  "bookAppointment_try newDate input =
     bind auth (\<lambda>userId.
       if \<not> truthy userId
       then throw (Error ''You must be logged in to book an appointment'')
       else if doctorId input = [] \<or> date input = [] \<or> time input = []
       then throw (Error ''Doctor, date, and time are required'')
       else
         bind (ensureUserExists (the userId)) (\<lambda>usr.
         bind (prisma_appointment_create
                 \<lparr>ac_userId = u_id usr,
                  ac_doctorId = doctorId input,
                  ac_date = newDate (date input),
                  ac_time = time input,
                  ac_reason = or_else (reason input) ''General consultation'',
                  ac_status = CONFIRMED\<rparr>)
           (\<lambda>appointment. lift (transformAppointment appointment))))"

definition bookAppointment ::
    "(string \<Rightarrow> jsdate option) \<Rightarrow> BookAppointmentInput \<Rightarrow> appointment_view action" where
  "bookAppointment newDate input =
     try_catch (bookAppointment_try newDate input)
       (\<lambda>err.
          bind (console_error ''Error booking appointment:'' (ErrArg err))
            (\<lambda>_. throw (Error ''Failed to book appointment. Please try again later.'')))"

record UpdateStatusInput =
  us_id :: ident
  us_status :: AppointmentStatus

definition updateAppointmentStatus_try :: "UpdateStatusInput \<Rightarrow> appointment action" where
  "updateAppointmentStatus_try input =
     bind (prisma_appointment_update (us_id input) (us_status input)) (\<lambda>appointment.
       return appointment)"

definition updateAppointmentStatus :: "UpdateStatusInput \<Rightarrow> appointment action" where
  "updateAppointmentStatus input =
     try_catch (updateAppointmentStatus_try input)
       (\<lambda>err.
          bind (console_error ''Error updating appointment:'' (ErrArg err))
            (\<lambda>_. throw (Error ''Failed to update appointment'')))"

section \<open>The user actions\<close>

text \<open>
  The user sync of the user actions, \<open>ensureUserExists()\<close> of \<open>users.ts\<close>: one \<open>upsert\<close>
  keyed on the external id. \<open>phoneNumbers[0]?.phoneNumber\<close> is \<open>undefined\<close> when the
  profile has no phone number; \<open>emailAddresses[0].emailAddress\<close> raises a \<open>TypeError\<close>
  when it has no email address.
\<close>

definition users_update_data :: "clerk_user \<Rightarrow> string \<Rightarrow> user_update_data" where
  "users_update_data cu em =
     \<lparr>uu_email = Some em,
      uu_firstName = Some (c_firstName cu),
      uu_lastName = Some (c_lastName cu),
      uu_phone = (case c_phoneNumbers cu of [] \<Rightarrow> None | p # _ \<Rightarrow> Some (Some p))\<rparr>"

definition users_create_data :: "clerk_user \<Rightarrow> string \<Rightarrow> user_create_data" where
  "users_create_data cu em =
     \<lparr>uc_clerkId = c_id cu,
      uc_email = em,
      uc_firstName = c_firstName cu,
      uc_lastName = c_lastName cu,
      uc_phone = (case c_phoneNumbers cu of [] \<Rightarrow> None | p # _ \<Rightarrow> Some p)\<rparr>"

definition users_ensureUserExists_try :: "user option action" where
  "users_ensureUserExists_try =
     bind currentUser (\<lambda>clerkUser.
       case clerkUser of
         None \<Rightarrow> return None
       | Some cu \<Rightarrow>
           (case c_emailAddresses cu of
              [] \<Rightarrow> throw TypeError
            | em # _ \<Rightarrow>
                bind (prisma_user_upsert (c_id cu) (users_update_data cu em) (users_create_data cu em))
                  (\<lambda>dbUser. return (Some dbUser))))"

definition users_ensureUserExists :: "user option action" where
  "users_ensureUserExists =
     try_catch users_ensureUserExists_try
       (\<lambda>err.
          bind (console_error ''Error in ensureUserExists:'' (ErrArg err))
            (\<lambda>_. throw err))"

section \<open>Example data\<close>

text \<open>A date parser that knows three date strings, one of them with a time of day, and a
  world with one doctor and a signed-in user who has no local row yet.\<close>

definition example_newDate :: "string \<Rightarrow> jsdate option" where
  "example_newDate s =
     (if s = ''2024-06-01'' then Some 1717200000000
      else if s = ''2024-06-01T10:30:00.000Z'' then Some 1717237800000
      else if s = ''2025-01-15'' then Some 1736899200000
      else None)"

definition example_clerk :: clerk_user where
  "example_clerk =
     \<lparr>c_id = ''user_1'', c_firstName = Some ''Ada'', c_lastName = Some ''Lovelace'',
      c_emailAddresses = [''ada@example.org''], c_phoneNumbers = []\<rparr>"

definition example_world :: world where
  "example_world =
     \<lparr>authUserId = Some ''user_1'',
      clerkUser = Some example_clerk,
      users = [],
      doctors = [\<lparr>d_id = ''d1'', d_name = ''Dr. Grace'', d_imageUrl = None\<rparr>],
      appointments = [],
      nextId = 0,
      clock = 1717000000000,
      calls = 0,
      faulty = (\<lambda>n. False),
      console = []\<rparr>"

definition example_input :: BookAppointmentInput where
  "example_input = \<lparr>doctorId = ''d1'', date = ''2024-06-01'', time = ''09:00'', reason = None\<rparr>"

text \<open>The same world with the persistence layer down.\<close>

definition example_world_down :: world where
  "example_world_down = example_world\<lparr>faulty := (\<lambda>n. True)\<rparr>"

text \<open>The same world once the user has a local row and three appointments on one day.\<close>

definition example_world_booked :: world where
  "example_world_booked =
     example_world
       \<lparr>users := [\<lparr>u_id = 0, u_clerkId = ''user_1'', u_email = ''old@example.org'',
                   u_firstName = Some ''A.'', u_lastName = None, u_phone = Some ''555-0100''\<rparr>],
        appointments :=
          [\<lparr>a_id = 1, a_userId = 0, a_doctorId = ''d1'', a_date = 1717200000000,
            a_time = ''11:00'', a_reason = ''Cleaning'', a_status = COMPLETED,
            a_createdAt = 1716000000000\<rparr>,
           \<lparr>a_id = 2, a_userId = 0, a_doctorId = ''d1'', a_date = 1717200000000,
            a_time = ''10:00'', a_reason = ''Checkup'', a_status = CANCELLED,
            a_createdAt = 1716100000000\<rparr>,
           \<lparr>a_id = 3, a_userId = 0, a_doctorId = ''d1'', a_date = 1717200000000,
            a_time = ''09:00'', a_reason = ''General consultation'', a_status = CONFIRMED,
            a_createdAt = 1716200000000\<rparr>],
        nextId := 4\<rparr>"

text \<open>The same world with nobody signed in.\<close>

definition example_world_anonymous :: world where
  "example_world_anonymous = example_world\<lparr>authUserId := None, clerkUser := None\<rparr>"

text \<open>The same world with a persistence layer that fails at its second call only.\<close>

definition example_world_flaky :: world where
  "example_world_flaky = example_world\<lparr>faulty := (\<lambda>n. n = 1)\<rparr>"

text \<open>Two more bookings: one whose date string carries a time of day, one on a later day.\<close>

definition example_input_timed :: BookAppointmentInput where
  "example_input_timed =
     \<lparr>doctorId = ''d1'', date = ''2024-06-01T10:30:00.000Z'', time = ''08:00'', reason = None\<rparr>"

definition example_input_later :: BookAppointmentInput where
  "example_input_later =
     \<lparr>doctorId = ''d1'', date = ''2025-01-15'', time = ''14:00'', reason = None\<rparr>"

text \<open>The example world after the user has booked \<open>example_input\<close> and then
  \<open>example_input_timed\<close>.\<close>

definition example_world_two_bookings :: world where
  "example_world_two_bookings =
     snd (bookAppointment example_newDate example_input_timed
            (snd (bookAppointment example_newDate example_input example_world)))"

text \<open>A world in which the user's row has a first name and, as last name, a no-break space.\<close>

definition example_world_nbsp :: world where
  "example_world_nbsp =
     example_world
       \<lparr>users := [\<lparr>u_id = 0, u_clerkId = ''user_1'', u_email = ''ada@example.org'',
                   u_firstName = Some ''Ada'', u_lastName = Some [CHR 0xA0], u_phone = None\<rparr>],
        nextId := 1\<rparr>"

section \<open>Basic facts\<close>

lemma find_append:
  "find P (xs @ ys) = (case find P xs of None \<Rightarrow> find P ys | Some x \<Rightarrow> Some x)"
  by (induction xs) auto

lemma find_Some_mem: "find P xs = Some x \<Longrightarrow> x \<in> set xs \<and> P x"
  by (induction xs) (auto split: if_splits)

subsection \<open>The date part of an ISO string\<close>

lemma digit_char_not_T: "n < 10 \<Longrightarrow> ''0123456789'' ! n \<noteq> CHR ''T''"
proof -
  assume "n < 10"
  then have "''0123456789'' ! n \<in> set ''0123456789''"
    by (intro nth_mem) simp
  then show ?thesis by auto
qed

lemma digits_no_T: "CHR ''T'' \<notin> set (digits k n)"
proof (induction k arbitrary: n)
  case 0
  show ?case by simp
next
  case (Suc k)
  have "''0123456789'' ! (n mod 10) \<noteq> CHR ''T''"
    by (rule digit_char_not_T) simp
  with Suc show ?case by simp
qed

lemma isoYear_no_T: "CHR ''T'' \<notin> set (isoYear y)"
  by (simp add: isoYear_def digits_no_T)

lemma isoDate_no_T: "CHR ''T'' \<notin> set (isoDate t)"
  by (simp add: isoDate_def isoYear_no_T digits_no_T split: prod.splits)

lemma split_T_0_toISOString: "split_T_0 (toISOString t) = isoDate t"
proof -
  have "\<forall>c\<in>set (isoDate t). c \<noteq> CHR ''T''"
    using isoDate_no_T by auto
  then show ?thesis
    by (simp add: split_T_0_def toISOString_def)
qed

subsection \<open>The user sync of the appointment actions, when it returns\<close>

lemma ensureUserExists_Inr:
  assumes "ensureUserExists cid w = (Inr u, w1)"
  shows "find (\<lambda>x. u_clerkId x = cid) (users w1) = Some u
       \<and> doctors w1 = doctors w \<and> appointments w1 = appointments w
       \<and> (users w1 = users w \<or> users w1 = users w @ [u])"
  using assms
  by (auto simp: ensureUserExists_def ensureUserExists_lookup_def ensureUserExists_resume_def
        ensureUserExists_data_def bind_def currentUser_def throw_def return_def
        prisma_user_findUnique_def prisma_user_create_def dbCall_def Let_def console_log_def
        new_user_def find_append
      split: option.splits if_splits list.splits sum.splits prod.splits)

section \<open>Booking: rejected calls\<close>

lemma bookAppointment_try_rejects:
  assumes "\<not> truthy (authUserId w) \<or> doctorId input = [] \<or> date input = [] \<or> time input = []"
  shows "bookAppointment_try newDate input w =
           (Inl (if \<not> truthy (authUserId w)
                 then Error ''You must be logged in to book an appointment''
                 else Error ''Doctor, date, and time are required''), w)"
  using assms by (auto simp: bookAppointment_try_def bind_def auth_def throw_def)

text \<open>
  C1, as the code has it. A call to \<open>bookAppointment\<close> by a caller who is not signed in, or
  with an empty doctorId, date or time, raises the not-signed-in error, respectively the
  required-fields error, inside the \<open>try\<close> block; the \<open>catch\<close> logs that error and the
  caller receives the generic booking failure. The world after the call is the world
  before it with one more console entry: no persistence call was made (\<open>calls\<close> is
  unchanged), and no user row or appointment row was created or modified.
\<close>

theorem bookAppointment_rejects_before_persistence:
  assumes "\<not> truthy (authUserId w) \<or> doctorId input = [] \<or> date input = [] \<or> time input = []"
  shows "bookAppointment newDate input w =
           (Inl (Error ''Failed to book appointment. Please try again later.''),
            w\<lparr>console := console w @
                 [ConsoleError ''Error booking appointment:''
                    (ErrArg (if \<not> truthy (authUserId w)
                             then Error ''You must be logged in to book an appointment''
                             else Error ''Doctor, date, and time are required''))]\<rparr>)"
  by (simp add: bookAppointment_def try_catch_def bookAppointment_try_rejects [OF assms]
        bind_def console_error_def throw_def)

theorem bookAppointment_rejects_before_persistence_witness:
  "\<not> truthy (authUserId (example_world\<lparr>authUserId := None\<rparr>))
   \<and> fst (bookAppointment example_newDate example_input (example_world\<lparr>authUserId := None\<rparr>))
       = Inl (Error ''Failed to book appointment. Please try again later.'')
   \<and> calls (snd (bookAppointment example_newDate example_input
                    (example_world\<lparr>authUserId := None\<rparr>))) = 0
   \<and> users (snd (bookAppointment example_newDate example_input
                    (example_world\<lparr>authUserId := None\<rparr>))) = []
   \<and> appointments (snd (bookAppointment example_newDate example_input
                    (example_world\<lparr>authUserId := None\<rparr>))) = []"
  using bookAppointment_rejects_before_persistence
          [of "example_world\<lparr>authUserId := None\<rparr>" example_input example_newDate]
  by (simp add: truthy_def example_world_def)

text \<open>
  C1 as stated fails: the caller of an unauthenticated booking does not receive the
  not-signed-in error but the generic one.
\<close>

theorem bookAppointment_NotAuthenticated_counterexample:
  "fst (bookAppointment example_newDate example_input (example_world\<lparr>authUserId := None\<rparr>))
     = Inl (Error ''Failed to book appointment. Please try again later.'')
   \<and> fst (bookAppointment example_newDate example_input (example_world\<lparr>authUserId := None\<rparr>))
     \<noteq> Inl (Error ''You must be logged in to book an appointment'')"
  by (simp add: bookAppointment_def bookAppointment_try_def try_catch_def bind_def auth_def
        throw_def truthy_def console_error_def example_world_def)

section \<open>Booked time slots\<close>

lemma prisma_appointment_findMany_cases:
  "prisma_appointment_findMany wh ob w =
     (if faulty w (calls w) then (Inl (PrismaError Unavailable), w\<lparr>calls := Suc (calls w)\<rparr>)
      else (Inr (map (include_user_doctor (w\<lparr>calls := Suc (calls w)\<rparr>))
                  (order_rows ob (filter wh (appointments w)))),
            w\<lparr>calls := Suc (calls w)\<rparr>))"
  by (simp add: prisma_appointment_findMany_def dbCall_def Let_def)

lemma i_row_include [simp]: "i_row (include_user_doctor w a) = a"
  by (simp add: include_user_doctor_def)

lemma getBookedTimeSlots_value:
  "fst (getBookedTimeSlots newDate did ds w) =
     Inr (case newDate ds of
            None \<Rightarrow> []
          | Some dt \<Rightarrow>
              if faulty w (calls w) then []
              else map a_time
                     (filter (\<lambda>a. a_doctorId a = did \<and> a_date a = dt
                                  \<and> (a_status a = CONFIRMED \<or> a_status a = COMPLETED))
                        (appointments w)))"
  by (simp add: getBookedTimeSlots_def getBookedTimeSlots_try_def try_catch_def bind_def
        throw_def return_def console_error_def prisma_appointment_findMany_cases comp_def
      split: option.splits)

text \<open>
  C3, as the code has it. \<open>getBookedTimeSlots\<close> always returns a list of time labels.
  Every label in it is the label of an appointment of that practitioner (\<open>did\<close>) whose
  stored date is the very instant \<open>new Date\<close> makes of the date string (\<open>ds\<close>), and whose
  status is CONFIRMED or COMPLETED; so a label that only CANCELLED appointments carry is
  never in it. When the query does not fail, the labels returned are exactly the labels of
  those appointments.
\<close>

theorem getBookedTimeSlots_confirmed_or_completed:
  "\<exists>ts. fst (getBookedTimeSlots newDate did ds w) = Inr ts
     \<and> (\<forall>t\<in>set ts. \<exists>a\<in>set (appointments w).
            a_time a = t \<and> a_doctorId a = did \<and> newDate ds = Some (a_date a)
            \<and> (a_status a = CONFIRMED \<or> a_status a = COMPLETED))
     \<and> (\<not> faulty w (calls w) \<longrightarrow>
          set ts = {a_time a |a. a \<in> set (appointments w) \<and> a_doctorId a = did
                        \<and> newDate ds = Some (a_date a)
                        \<and> (a_status a = CONFIRMED \<or> a_status a = COMPLETED)})"
  unfolding getBookedTimeSlots_value
  by (cases "newDate ds") auto

theorem getBookedTimeSlots_confirmed_or_completed_witness:
  "\<not> faulty example_world_booked (calls example_world_booked)
   \<and> fst (getBookedTimeSlots example_newDate ''d1'' ''2024-06-01'' example_world_booked)
       = Inr [''11:00'', ''09:00'']
   \<and> set [''11:00'', ''09:00''] =
       {a_time a |a. a \<in> set (appointments example_world_booked) \<and> a_doctorId a = ''d1''
                     \<and> example_newDate ''2024-06-01'' = Some (a_date a)
                     \<and> (a_status a = CONFIRMED \<or> a_status a = COMPLETED)}"
proof -
  have nf: "\<not> faulty example_world_booked (calls example_world_booked)"
    by (simp add: example_world_booked_def example_world_def)
  have v: "fst (getBookedTimeSlots example_newDate ''d1'' ''2024-06-01'' example_world_booked)
             = Inr [''11:00'', ''09:00'']"
    by (simp add: getBookedTimeSlots_value example_world_booked_def example_world_def
          example_newDate_def)
  from getBookedTimeSlots_confirmed_or_completed
         [of example_newDate "''d1''" "''2024-06-01''" example_world_booked] nf
  obtain ts where
    "fst (getBookedTimeSlots example_newDate ''d1'' ''2024-06-01'' example_world_booked) = Inr ts"
    "set ts = {a_time a |a. a \<in> set (appointments example_world_booked) \<and> a_doctorId a = ''d1''
                     \<and> example_newDate ''2024-06-01'' = Some (a_date a)
                     \<and> (a_status a = CONFIRMED \<or> a_status a = COMPLETED)}"
    by blast
  with v have "set [''11:00'', ''09:00''] =
       {a_time a |a. a \<in> set (appointments example_world_booked) \<and> a_doctorId a = ''d1''
                     \<and> example_newDate ''2024-06-01'' = Some (a_date a)
                     \<and> (a_status a = CONFIRMED \<or> a_status a = COMPLETED)}"
    by simp
  with nf v show ?thesis by blast
qed

section \<open>Queries that fail open\<close>

text \<open>
  C4. Whenever the \<open>try\<close> block of \<open>getBookedTimeSlots\<close> fails, with whatever error, the
  action returns the empty list; whenever the \<open>try\<close> block of \<open>getUserAppointmentStats\<close>
  fails, the action returns zero total and zero completed counts. Neither action ever
  passes an error to its caller.
\<close>

theorem read_queries_fail_open:
  "(fst (getBookedTimeSlots_try newDate did ds w) = Inl e1 \<longrightarrow>
      fst (getBookedTimeSlots newDate did ds w) = Inr [])
   \<and> (fst (getUserAppointmentStats_try w) = Inl e2 \<longrightarrow>
      fst (getUserAppointmentStats w) = Inr \<lparr>totalAppointments = 0, completedAppointments = 0\<rparr>)
   \<and> (\<exists>ts. fst (getBookedTimeSlots newDate did ds w) = Inr ts)
   \<and> (\<exists>st. fst (getUserAppointmentStats w) = Inr st)"
  by (auto simp: getBookedTimeSlots_def getUserAppointmentStats_def try_catch_def bind_def
        console_error_def return_def split: prod.splits sum.splits)

theorem read_queries_fail_open_witness:
  "fst (getBookedTimeSlots_try example_newDate ''d1'' ''2024-06-01'' example_world_down)
     = Inl (PrismaError Unavailable)
   \<and> fst (getBookedTimeSlots example_newDate ''d1'' ''2024-06-01'' example_world_down) = Inr []
   \<and> fst (getUserAppointmentStats_try example_world_down) = Inl (PrismaError Unavailable)
   \<and> fst (getUserAppointmentStats example_world_down)
     = Inr \<lparr>totalAppointments = 0, completedAppointments = 0\<rparr>"
proof -
  have a: "fst (getBookedTimeSlots_try example_newDate ''d1'' ''2024-06-01'' example_world_down)
     = Inl (PrismaError Unavailable)"
    by (simp add: getBookedTimeSlots_try_def bind_def prisma_appointment_findMany_cases
          example_world_down_def example_newDate_def)
  have b: "fst (getUserAppointmentStats_try example_world_down) = Inl (PrismaError Unavailable)"
    by (simp add: getUserAppointmentStats_try_def bind_def auth_def truthy_def
          ensureUserExists_def ensureUserExists_lookup_def currentUser_def
          prisma_user_findUnique_def dbCall_def Let_def
          example_world_down_def example_world_def)
  from a b read_queries_fail_open
         [of example_newDate "''d1''" "''2024-06-01''" example_world_down
             "PrismaError Unavailable" "PrismaError Unavailable"]
  show ?thesis by simp
qed

section \<open>What a caller sees when an action fails\<close>

lemma bind_fst_Inl: "fst (m w) = Inl e \<Longrightarrow> fst (bind m f w) = Inl e"
  by (cases "m w") (auto simp: bind_def)

lemma bind_auth: "bind auth f w = f (authUserId w) w"
  by (simp add: bind_def auth_def)

lemma down_faulty [simp]: "faulty example_world_down n"
  by (simp add: example_world_down_def)

text \<open>
  C5, as the code has it. Whatever error the \<open>try\<close> block raises: \<open>getAppointments\<close> and
  \<open>getUserAppointments\<close> signal the generic errors "Failed to fetch appointments" and
  "Failed to fetch user appointments" to the caller; \<open>getBookedTimeSlots\<close> returns the
  empty list and \<open>getUserAppointmentStats\<close> zero counts; \<open>bookAppointment\<close> and
  \<open>updateAppointmentStatus\<close> signal their generic errors; the user sync of the user
  actions signals the very error it caught.
\<close>

theorem failure_propagation:
  "(fst (getAppointments_try w) = Inl e1 \<longrightarrow>
      fst (getAppointments w) = Inl (Error ''Failed to fetch appointments''))
   \<and> (fst (getUserAppointments_try w) = Inl e2 \<longrightarrow>
      fst (getUserAppointments w) = Inl (Error ''Failed to fetch user appointments''))
   \<and> (fst (getBookedTimeSlots_try newDate did ds w) = Inl e3 \<longrightarrow>
      fst (getBookedTimeSlots newDate did ds w) = Inr [])
   \<and> (fst (getUserAppointmentStats_try w) = Inl e4 \<longrightarrow>
      fst (getUserAppointmentStats w) = Inr \<lparr>totalAppointments = 0, completedAppointments = 0\<rparr>)
   \<and> (fst (bookAppointment_try newDate input w) = Inl e5 \<longrightarrow>
      fst (bookAppointment newDate input w)
        = Inl (Error ''Failed to book appointment. Please try again later.''))
   \<and> (fst (updateAppointmentStatus_try upd w) = Inl e6 \<longrightarrow>
      fst (updateAppointmentStatus upd w) = Inl (Error ''Failed to update appointment''))
   \<and> (fst (users_ensureUserExists_try w) = Inl e7 \<longrightarrow>
      fst (users_ensureUserExists w) = Inl e7)"
  by (auto simp: getAppointments_def getUserAppointments_def getBookedTimeSlots_def
        getUserAppointmentStats_def bookAppointment_def updateAppointmentStatus_def
        users_ensureUserExists_def try_catch_def bind_def console_error_def console_log_def
        return_def throw_def split: prod.splits sum.splits)

theorem failure_propagation_witness:
  "fst (getAppointments_try example_world_down) = Inl (PrismaError Unavailable)
   \<and> fst (getAppointments example_world_down) = Inl (Error ''Failed to fetch appointments'')
   \<and> fst (getUserAppointments_try example_world_down) = Inl (PrismaError Unavailable)
   \<and> fst (getUserAppointments example_world_down) = Inl (Error ''Failed to fetch user appointments'')
   \<and> fst (getBookedTimeSlots_try example_newDate ''d1'' ''2024-06-01'' example_world_down)
       = Inl (PrismaError Unavailable)
   \<and> fst (getBookedTimeSlots example_newDate ''d1'' ''2024-06-01'' example_world_down) = Inr []
   \<and> fst (getUserAppointmentStats_try example_world_down) = Inl (PrismaError Unavailable)
   \<and> fst (getUserAppointmentStats example_world_down)
       = Inr \<lparr>totalAppointments = 0, completedAppointments = 0\<rparr>
   \<and> fst (bookAppointment_try example_newDate example_input example_world_down)
       = Inl (PrismaError Unavailable)
   \<and> fst (bookAppointment example_newDate example_input example_world_down)
       = Inl (Error ''Failed to book appointment. Please try again later.'')
   \<and> fst (updateAppointmentStatus_try \<lparr>us_id = 3, us_status = COMPLETED\<rparr> example_world_down)
       = Inl (PrismaError Unavailable)
   \<and> fst (updateAppointmentStatus \<lparr>us_id = 3, us_status = COMPLETED\<rparr> example_world_down)
       = Inl (Error ''Failed to update appointment'')
   \<and> fst (users_ensureUserExists_try example_world_down) = Inl (PrismaError Unavailable)
   \<and> fst (users_ensureUserExists example_world_down) = Inl (PrismaError Unavailable)"
proof -
  have w: "authUserId example_world_down = Some ''user_1''"
          "clerkUser example_world_down = Some example_clerk"
    by (simp_all add: example_world_down_def example_world_def)
  have 1: "fst (getAppointments_try example_world_down) = Inl (PrismaError Unavailable)"
    by (simp add: getAppointments_try_def bind_def prisma_appointment_findMany_def dbCall_def Let_def)
  have lk: "fst (ensureUserExists ''user_1'' example_world_down) = Inl (PrismaError Unavailable)"
    by (simp add: ensureUserExists_def ensureUserExists_lookup_def bind_def currentUser_def w
          prisma_user_findUnique_def dbCall_def Let_def)
  have 2: "fst (getUserAppointments_try example_world_down) = Inl (PrismaError Unavailable)"
    using lk by (simp add: getUserAppointments_try_def bind_auth w truthy_def bind_fst_Inl)
  have 3: "fst (getBookedTimeSlots_try example_newDate ''d1'' ''2024-06-01'' example_world_down)
             = Inl (PrismaError Unavailable)"
    by (simp add: getBookedTimeSlots_try_def bind_def prisma_appointment_findMany_def dbCall_def
          Let_def example_newDate_def)
  have 4: "fst (getUserAppointmentStats_try example_world_down) = Inl (PrismaError Unavailable)"
    using lk by (simp add: getUserAppointmentStats_try_def bind_auth w truthy_def bind_fst_Inl)
  have 5: "fst (bookAppointment_try example_newDate example_input example_world_down)
             = Inl (PrismaError Unavailable)"
    using lk by (simp add: bookAppointment_try_def bind_auth w truthy_def example_input_def
                   bind_fst_Inl)
  have 6: "fst (updateAppointmentStatus_try \<lparr>us_id = 3, us_status = COMPLETED\<rparr> example_world_down)
             = Inl (PrismaError Unavailable)"
    by (simp add: updateAppointmentStatus_try_def bind_def prisma_appointment_update_def dbCall_def
          Let_def)
  have 7: "fst (users_ensureUserExists_try example_world_down) = Inl (PrismaError Unavailable)"
    by (simp add: users_ensureUserExists_try_def bind_def currentUser_def w example_clerk_def
          prisma_user_upsert_def dbCall_def Let_def)
  from 1 2 3 4 5 6 7
    failure_propagation [of example_world_down "PrismaError Unavailable" "PrismaError Unavailable"
      example_newDate "''d1''" "''2024-06-01''" "PrismaError Unavailable" "PrismaError Unavailable"
      example_input "PrismaError Unavailable" "\<lparr>us_id = 3, us_status = COMPLETED\<rparr>"
      "PrismaError Unavailable" "PrismaError Unavailable"]
  show ?thesis by simp
qed

text \<open>
  C5 as stated fails: when its query fails, \<open>getAppointments\<close> does not return an empty
  list, it signals an error.
\<close>

theorem getAppointments_empty_on_failure_counterexample:
  "fst (getAppointments example_world_down) = Inl (Error ''Failed to fetch appointments'')
   \<and> fst (getAppointments example_world_down) \<noteq> Inr []"
  by (simp add: getAppointments_def getAppointments_try_def try_catch_def bind_def
        prisma_appointment_findMany_def dbCall_def Let_def console_log_def throw_def)

section \<open>Status update\<close>

lemma update_first_split:
  "find P xs = Some a \<Longrightarrow>
     \<exists>ys zs. xs = ys @ a # zs \<and> (\<forall>y\<in>set ys. \<not> P y) \<and> update_first P f xs = ys @ f a # zs"
proof (induction xs)
  case Nil
  then show ?case by simp
next
  case (Cons x xs)
  show ?case
  proof (cases "P x")
    case True
    with Cons.prems have "x = a" by simp
    with True have "x # xs = [] @ a # xs \<and> (\<forall>y\<in>set []. \<not> P y)
        \<and> update_first P f (x # xs) = [] @ f a # xs" by simp
    then show ?thesis by blast
  next
    case False
    with Cons.prems have "find P xs = Some a" by simp
    from Cons.IH [OF this] obtain ys zs where
      "xs = ys @ a # zs" "\<forall>y\<in>set ys. \<not> P y" "update_first P f xs = ys @ f a # zs" by blast
    with False have "x # xs = (x # ys) @ a # zs \<and> (\<forall>y\<in>set (x # ys). \<not> P y)
        \<and> update_first P f (x # xs) = (x # ys) @ f a # zs" by simp
    then show ?thesis by blast
  qed
qed

text \<open>
  C8. For every appointment row \<open>a\<close> found under the given id, every new status \<open>st\<close> and
  every session (signed in or not), \<open>updateAppointmentStatus\<close> succeeds when the
  persistence call does not fail: it returns \<open>a\<close> with status \<open>st\<close> and stores that row in
  place of \<open>a\<close>; every other field of the row, every other appointment row, and the user
  and doctor tables stay as they were. The current status of \<open>a\<close> is not consulted. When
  \<open>st\<close> is the current status of \<open>a\<close>, the row and the table are unchanged.
\<close>

theorem updateAppointmentStatus_overwrites:
  assumes "find (\<lambda>a. a_id a = i) (appointments w) = Some a" and "\<not> faulty w (calls w)"
  shows "\<exists>before after w'.
           updateAppointmentStatus \<lparr>us_id = i, us_status = st\<rparr> w = (Inr (a\<lparr>a_status := st\<rparr>), w')
         \<and> appointments w = before @ a # after
         \<and> appointments w' = before @ a\<lparr>a_status := st\<rparr> # after
         \<and> users w' = users w \<and> doctors w' = doctors w
         \<and> (st = a_status a \<longrightarrow> a\<lparr>a_status := st\<rparr> = a \<and> appointments w' = appointments w)"
proof -
  from update_first_split [OF assms(1), of "\<lambda>a. a\<lparr>a_status := st\<rparr>"] obtain ys zs where
    s: "appointments w = ys @ a # zs"
       "update_first (\<lambda>a. a_id a = i) (\<lambda>a. a\<lparr>a_status := st\<rparr>) (appointments w)
          = ys @ a\<lparr>a_status := st\<rparr> # zs"
    by blast
  let ?w' = "w\<lparr>calls := Suc (calls w),
               appointments := update_first (\<lambda>a. a_id a = i) (\<lambda>a. a\<lparr>a_status := st\<rparr>) (appointments w)\<rparr>"
  have "updateAppointmentStatus \<lparr>us_id = i, us_status = st\<rparr> w = (Inr (a\<lparr>a_status := st\<rparr>), ?w')"
    using assms
    by (simp add: updateAppointmentStatus_def updateAppointmentStatus_try_def try_catch_def
          bind_def return_def prisma_appointment_update_def dbCall_def Let_def)
  moreover have "appointments ?w' = ys @ a\<lparr>a_status := st\<rparr> # zs" using s(2) by simp
  moreover have "st = a_status a \<longrightarrow> a\<lparr>a_status := st\<rparr> = a \<and> appointments ?w' = appointments w"
    using s by auto
  ultimately show ?thesis using s(1) by (intro exI [of _ ys] exI [of _ zs] exI [of _ ?w']) simp
qed

theorem updateAppointmentStatus_overwrites_witness:
  "\<exists>a. find (\<lambda>a. a_id a = 2) (appointments (example_world_booked\<lparr>authUserId := None\<rparr>)) = Some a
     \<and> a_status a = CANCELLED
     \<and> \<not> faulty (example_world_booked\<lparr>authUserId := None\<rparr>)
           (calls (example_world_booked\<lparr>authUserId := None\<rparr>))
     \<and> fst (updateAppointmentStatus \<lparr>us_id = 2, us_status = CONFIRMED\<rparr>
              (example_world_booked\<lparr>authUserId := None\<rparr>)) = Inr (a\<lparr>a_status := CONFIRMED\<rparr>)"
proof -
  let ?w = "example_world_booked\<lparr>authUserId := None\<rparr>"
  let ?a = "\<lparr>a_id = 2, a_userId = 0, a_doctorId = ''d1'', a_date = 1717200000000,
            a_time = ''10:00'', a_reason = ''Checkup'', a_status = CANCELLED,
            a_createdAt = 1716100000000\<rparr>"
  have f: "find (\<lambda>a. a_id a = 2) (appointments ?w) = Some ?a"
    by (simp add: example_world_booked_def)
  have nf: "\<not> faulty ?w (calls ?w)"
    by (simp add: example_world_booked_def example_world_def)
  from updateAppointmentStatus_overwrites [OF f nf, of CONFIRMED]
  have "fst (updateAppointmentStatus \<lparr>us_id = 2, us_status = CONFIRMED\<rparr> ?w)
          = Inr (?a\<lparr>a_status := CONFIRMED\<rparr>)"
    by auto
  with f nf show ?thesis by simp
qed

section \<open>The two user syncs\<close>

lemma dbCall_cases:
  "dbCall f w = (if faulty w (calls w) then (Inl (PrismaError Unavailable), w\<lparr>calls := Suc (calls w)\<rparr>)
                 else f (w\<lparr>calls := Suc (calls w)\<rparr>))"
  by (simp add: dbCall_def Let_def)

lemma ensureUserExists_no_identity:
  "clerkUser w = None \<Longrightarrow> ensureUserExists cid w = (Inl (Error ''No Clerk user found''), w)"
  by (simp add: ensureUserExists_def ensureUserExists_lookup_def bind_def currentUser_def throw_def)

lemma users_ensureUserExists_no_identity:
  "clerkUser w = None \<Longrightarrow> users_ensureUserExists w = (Inr None, w)"
  by (simp add: users_ensureUserExists_def users_ensureUserExists_try_def try_catch_def bind_def
        currentUser_def return_def)

lemma ensureUserExists_found:
  assumes "clerkUser w \<noteq> None" "find (\<lambda>x. u_clerkId x = cid) (users w) = Some u"
          "\<not> faulty w (calls w)"
  shows "ensureUserExists cid w = (Inr u, w\<lparr>calls := Suc (calls w)\<rparr>)"
  using assms
  by (auto simp: ensureUserExists_def ensureUserExists_lookup_def ensureUserExists_resume_def
        bind_def currentUser_def return_def prisma_user_findUnique_def dbCall_cases)

lemma ensureUserExists_created:
  assumes "clerkUser w = Some cd" "c_emailAddresses cd = em # ems"
          "find (\<lambda>x. u_clerkId x = cid) (users w) = None"
          "\<not> faulty w (calls w)" "\<not> faulty w (Suc (calls w))"
  shows "ensureUserExists cid w =
           (Inr (new_user (nextId w) (ensureUserExists_data cid cd em)),
            w\<lparr>calls := Suc (Suc (calls w)),
              users := users w @ [new_user (nextId w) (ensureUserExists_data cid cd em)],
              nextId := Suc (nextId w),
              console := console w @ [ConsoleLog ''New user created in Prisma:'' (StrArg em)]\<rparr>)"
  using assms
  by (simp add: ensureUserExists_def ensureUserExists_lookup_def ensureUserExists_resume_def
        bind_def currentUser_def return_def prisma_user_findUnique_def prisma_user_create_def
        dbCall_cases console_log_def ensureUserExists_data_def new_user_def Let_def)

lemma users_ensureUserExists_updated:
  assumes "clerkUser w = Some cu" "c_emailAddresses cu = em # ems"
          "find (\<lambda>x. u_clerkId x = c_id cu) (users w) = Some u" "\<not> faulty w (calls w)"
  shows "users_ensureUserExists w =
           (Inr (Some (apply_user_update (users_update_data cu em) u)),
            w\<lparr>calls := Suc (calls w),
              users := update_first (\<lambda>x. u_clerkId x = c_id cu)
                         (apply_user_update (users_update_data cu em)) (users w)\<rparr>)"
  using assms
  by (simp add: users_ensureUserExists_def users_ensureUserExists_try_def try_catch_def bind_def
        currentUser_def return_def prisma_user_upsert_def dbCall_cases)

lemma users_ensureUserExists_created:
  assumes "clerkUser w = Some cu" "c_emailAddresses cu = em # ems"
          "find (\<lambda>x. u_clerkId x = c_id cu) (users w) = None" "\<not> faulty w (calls w)"
  shows "users_ensureUserExists w =
           (Inr (Some (new_user (nextId w) (users_create_data cu em))),
            w\<lparr>calls := Suc (calls w),
              users := users w @ [new_user (nextId w) (users_create_data cu em)],
              nextId := Suc (nextId w)\<rparr>)"
  using assms
  by (simp add: users_ensureUserExists_def users_ensureUserExists_try_def try_catch_def bind_def
        currentUser_def return_def prisma_user_upsert_def dbCall_cases Let_def)

subsection \<open>Failures of the user sync\<close>

text \<open>
  C10, as the code has it. With no caller identity (\<open>currentUser()\<close> is \<open>null\<close>), the sync
  of the appointment actions signals the error "No Clerk user found", and the sync of the
  user actions returns \<open>null\<close> without signalling anything; neither touches the world.
  On both paths an error raised by a persistence call of the sync (\<open>findUnique\<close>,
  \<open>create\<close>, \<open>upsert\<close>) reaches the caller of the sync as it is.
\<close>

theorem user_sync_failures:
  "(clerkUser w = None \<longrightarrow> ensureUserExists cid w = (Inl (Error ''No Clerk user found''), w))
   \<and> (clerkUser w = None \<longrightarrow> users_ensureUserExists w = (Inr None, w))
   \<and> (clerkUser w \<noteq> None \<longrightarrow> fst (prisma_user_findUnique cid w) = Inl e1 \<longrightarrow>
        fst (ensureUserExists cid w) = Inl e1)
   \<and> (clerkUser w = Some cd \<longrightarrow> c_emailAddresses cd = em # ems \<longrightarrow>
        prisma_user_findUnique cid w = (Inr None, w1) \<longrightarrow>
        fst (prisma_user_create (ensureUserExists_data cid cd em) w1) = Inl e2 \<longrightarrow>
        fst (ensureUserExists cid w) = Inl e2)
   \<and> (clerkUser w = Some cd \<longrightarrow> c_emailAddresses cd = em # ems \<longrightarrow>
        fst (prisma_user_upsert (c_id cd) (users_update_data cd em) (users_create_data cd em) w)
          = Inl e3 \<longrightarrow>
        fst (users_ensureUserExists w) = Inl e3)"
proof (intro conjI impI)
  assume "clerkUser w = None"
  then show "ensureUserExists cid w = (Inl (Error ''No Clerk user found''), w)"
    by (rule ensureUserExists_no_identity)
next
  assume "clerkUser w = None"
  then show "users_ensureUserExists w = (Inr None, w)"
    by (rule users_ensureUserExists_no_identity)
next
  assume "clerkUser w \<noteq> None" "fst (prisma_user_findUnique cid w) = Inl e1"
  then show "fst (ensureUserExists cid w) = Inl e1"
    by (auto simp: ensureUserExists_def ensureUserExists_lookup_def bind_def currentUser_def
          split: prod.splits sum.splits)
next
  assume "clerkUser w = Some cd" "c_emailAddresses cd = em # ems"
         "prisma_user_findUnique cid w = (Inr None, w1)"
         "fst (prisma_user_create (ensureUserExists_data cid cd em) w1) = Inl e2"
  then show "fst (ensureUserExists cid w) = Inl e2"
    by (auto simp: ensureUserExists_def ensureUserExists_lookup_def ensureUserExists_resume_def
          bind_def currentUser_def return_def split: prod.splits sum.splits)
next
  assume "clerkUser w = Some cd" "c_emailAddresses cd = em # ems"
         "fst (prisma_user_upsert (c_id cd) (users_update_data cd em) (users_create_data cd em) w)
            = Inl e3"
  then show "fst (users_ensureUserExists w) = Inl e3"
    by (auto simp: users_ensureUserExists_def users_ensureUserExists_try_def try_catch_def
          bind_def currentUser_def console_error_def throw_def split: prod.splits sum.splits)
qed

theorem user_sync_failures_witness:
  "clerkUser example_world_anonymous = None
   \<and> fst (ensureUserExists ''user_1'' example_world_anonymous) = Inl (Error ''No Clerk user found'')
   \<and> fst (users_ensureUserExists example_world_anonymous) = Inr None
   \<and> clerkUser example_world_down = Some example_clerk
   \<and> fst (prisma_user_findUnique ''user_1'' example_world_down) = Inl (PrismaError Unavailable)
   \<and> fst (ensureUserExists ''user_1'' example_world_down) = Inl (PrismaError Unavailable)
   \<and> fst (users_ensureUserExists example_world_down) = Inl (PrismaError Unavailable)
   \<and> fst (prisma_user_findUnique ''user_1'' example_world_flaky) = Inr None
   \<and> fst (ensureUserExists ''user_1'' example_world_flaky) = Inl (PrismaError Unavailable)"
proof -
  have anon: "clerkUser example_world_anonymous = None"
    by (simp add: example_world_anonymous_def)
  have down: "clerkUser example_world_down = Some example_clerk"
    by (simp add: example_world_down_def example_world_def)
  have flaky: "clerkUser example_world_flaky = Some example_clerk"
    by (simp add: example_world_flaky_def example_world_def)
  have em: "c_emailAddresses example_clerk = ''ada@example.org'' # []"
    by (simp add: example_clerk_def)
  have f1: "fst (prisma_user_findUnique ''user_1'' example_world_down) = Inl (PrismaError Unavailable)"
    by (simp add: prisma_user_findUnique_def dbCall_cases example_world_down_def)
  have f2: "fst (prisma_user_upsert (c_id example_clerk)
                   (users_update_data example_clerk ''ada@example.org'')
                   (users_create_data example_clerk ''ada@example.org'') example_world_down)
              = Inl (PrismaError Unavailable)"
    by (simp add: prisma_user_upsert_def dbCall_cases example_world_down_def)
  have f3: "prisma_user_findUnique ''user_1'' example_world_flaky
              = (Inr None, example_world_flaky\<lparr>calls := 1\<rparr>)"
    by (simp add: prisma_user_findUnique_def dbCall_cases example_world_flaky_def example_world_def)
  have f4: "fst (prisma_user_create (ensureUserExists_data ''user_1'' example_clerk ''ada@example.org'')
                   (example_world_flaky\<lparr>calls := 1\<rparr>)) = Inl (PrismaError Unavailable)"
    by (simp add: prisma_user_create_def dbCall_cases example_world_flaky_def)
  note a = user_sync_failures [of example_world_anonymous "''user_1''"]
  note d = user_sync_failures [of example_world_down "''user_1''" "PrismaError Unavailable"
             example_clerk "''ada@example.org''" "[]" _ _ "PrismaError Unavailable"]
  note f = user_sync_failures [of example_world_flaky "''user_1''" _
             example_clerk "''ada@example.org''" "[]" "example_world_flaky\<lparr>calls := 1\<rparr>"
             "PrismaError Unavailable"]
  from a anon have 1: "fst (ensureUserExists ''user_1'' example_world_anonymous) = Inl (Error ''No Clerk user found'')"
    and 2: "fst (users_ensureUserExists example_world_anonymous) = Inr None" by simp_all
  from d down em f1 f2 have 3: "fst (ensureUserExists ''user_1'' example_world_down) = Inl (PrismaError Unavailable)"
    and 4: "fst (users_ensureUserExists example_world_down) = Inl (PrismaError Unavailable)" by simp_all
  from f flaky em f3 f4 have 5: "fst (ensureUserExists ''user_1'' example_world_flaky) = Inl (PrismaError Unavailable)"
    by simp
  from anon down f1 f3 1 2 3 4 5 show ?thesis by simp
qed

text \<open>
  C10 as stated fails: with nobody signed in, the sync of the user actions returns
  \<open>null\<close>; it signals no error.
\<close>

theorem users_ensureUserExists_no_identity_counterexample:
  "authUserId example_world_anonymous = None \<and> clerkUser example_world_anonymous = None
   \<and> fst (users_ensureUserExists example_world_anonymous) = Inr None"
  by (simp add: users_ensureUserExists_def users_ensureUserExists_try_def try_catch_def bind_def
        currentUser_def return_def example_world_anonymous_def)

subsection \<open>The two syncs on a user who has a row, and on one who has none\<close>

text \<open>
  C9, as the code has it. For a signed-in user with an email address, when the
  persistence call does not fail: if the user already has a row, the sync of the user
  actions overwrites first name, last name and email of that row (and of no other row)
  with the provider's, and the phone whenever the provider's profile has a phone number,
  while the sync of the appointment actions returns the row and leaves the table
  untouched; if the user has no row, the sync of the appointment actions appends one.
\<close>

theorem user_sync_on_existing_row:
  assumes "clerkUser w = Some cu" and "c_emailAddresses cu = em # ems"
      and "\<not> faulty w (calls w)"
  shows "(\<forall>u. find (\<lambda>x. u_clerkId x = c_id cu) (users w) = Some u \<longrightarrow>
            (\<exists>u' w' before after.
                users_ensureUserExists w = (Inr (Some u'), w')
              \<and> users w = before @ u # after \<and> users w' = before @ u' # after
              \<and> u_id u' = u_id u \<and> u_clerkId u' = u_clerkId u
              \<and> u_email u' = em \<and> u_firstName u' = c_firstName cu
              \<and> u_lastName u' = c_lastName cu
              \<and> (\<forall>p ps. c_phoneNumbers cu = p # ps \<longrightarrow> u_phone u' = Some p))
            \<and> ensureUserExists (c_id cu) w = (Inr u, w\<lparr>calls := Suc (calls w)\<rparr>))
       \<and> (find (\<lambda>x. u_clerkId x = c_id cu) (users w) = None \<longrightarrow> \<not> faulty w (Suc (calls w)) \<longrightarrow>
            (\<exists>u w'. ensureUserExists (c_id cu) w = (Inr u, w')
                  \<and> users w' = users w @ [u] \<and> u_clerkId u = c_id cu))"
proof (intro conjI allI impI)
  fix u
  assume f: "find (\<lambda>x. u_clerkId x = c_id cu) (users w) = Some u"
  let ?upd = "apply_user_update (users_update_data cu em)"
  from update_first_split [OF f, of ?upd] obtain ys zs where
    s: "users w = ys @ u # zs"
       "update_first (\<lambda>x. u_clerkId x = c_id cu) ?upd (users w) = ys @ ?upd u # zs"
    by blast
  let ?w' = "w\<lparr>calls := Suc (calls w),
               users := update_first (\<lambda>x. u_clerkId x = c_id cu) ?upd (users w)\<rparr>"
  have r: "users_ensureUserExists w = (Inr (Some (?upd u)), ?w')"
    by (rule users_ensureUserExists_updated [OF assms(1,2) f assms(3)])
  have fields: "u_id (?upd u) = u_id u \<and> u_clerkId (?upd u) = u_clerkId u
      \<and> u_email (?upd u) = em \<and> u_firstName (?upd u) = c_firstName cu
      \<and> u_lastName (?upd u) = c_lastName cu
      \<and> (\<forall>p ps. c_phoneNumbers cu = p # ps \<longrightarrow> u_phone (?upd u) = Some p)"
    by (simp add: apply_user_update_def users_update_data_def)
  have "users ?w' = ys @ ?upd u # zs" using s(2) by simp
  with r s(1) fields
  show "\<exists>u' w' before after.
                users_ensureUserExists w = (Inr (Some u'), w')
              \<and> users w = before @ u # after \<and> users w' = before @ u' # after
              \<and> u_id u' = u_id u \<and> u_clerkId u' = u_clerkId u
              \<and> u_email u' = em \<and> u_firstName u' = c_firstName cu
              \<and> u_lastName u' = c_lastName cu
              \<and> (\<forall>p ps. c_phoneNumbers cu = p # ps \<longrightarrow> u_phone u' = Some p)"
    by blast
  from assms(1) have "clerkUser w \<noteq> None" by simp
  then show "ensureUserExists (c_id cu) w = (Inr u, w\<lparr>calls := Suc (calls w)\<rparr>)"
    using f assms(3) by (rule ensureUserExists_found)
next
  assume n: "find (\<lambda>x. u_clerkId x = c_id cu) (users w) = None" and nf: "\<not> faulty w (Suc (calls w))"
  from ensureUserExists_created [OF assms(1,2) n assms(3) nf]
  show "\<exists>u w'. ensureUserExists (c_id cu) w = (Inr u, w')
                  \<and> users w' = users w @ [u] \<and> u_clerkId u = c_id cu"
    by (simp add: new_user_def ensureUserExists_data_def)
qed

theorem user_sync_on_existing_row_witness:
  "clerkUser example_world_booked = Some example_clerk
   \<and> c_emailAddresses example_clerk = ''ada@example.org'' # []
   \<and> \<not> faulty example_world_booked (calls example_world_booked)
   \<and> (\<exists>u. find (\<lambda>x. u_clerkId x = c_id example_clerk) (users example_world_booked) = Some u
          \<and> u_email u = ''old@example.org''
          \<and> (\<exists>u' w'. users_ensureUserExists example_world_booked = (Inr (Some u'), w')
                 \<and> u_email u' = ''ada@example.org'' \<and> u_firstName u' = Some ''Ada''
                 \<and> u_lastName u' = Some ''Lovelace'')
          \<and> fst (ensureUserExists (c_id example_clerk) example_world_booked) = Inr u)
   \<and> clerkUser example_world = Some example_clerk
   \<and> \<not> faulty example_world (calls example_world)
   \<and> \<not> faulty example_world (Suc (calls example_world))
   \<and> find (\<lambda>x. u_clerkId x = c_id example_clerk) (users example_world) = None
   \<and> (\<exists>u w'. ensureUserExists (c_id example_clerk) example_world = (Inr u, w')
          \<and> users w' = users example_world @ [u])"
proof -
  let ?u = "\<lparr>u_id = 0, u_clerkId = ''user_1'', u_email = ''old@example.org'',
             u_firstName = Some ''A.'', u_lastName = None, u_phone = Some ''555-0100''\<rparr>"
  have c: "clerkUser example_world_booked = Some example_clerk"
    by (simp add: example_world_booked_def example_world_def)
  have e: "c_emailAddresses example_clerk = ''ada@example.org'' # []"
    by (simp add: example_clerk_def)
  have nf: "\<not> faulty example_world_booked (calls example_world_booked)"
    by (simp add: example_world_booked_def example_world_def)
  have f: "find (\<lambda>x. u_clerkId x = c_id example_clerk) (users example_world_booked) = Some ?u"
    by (simp add: example_world_booked_def example_clerk_def)
  from user_sync_on_existing_row [OF c e nf] f
  have "(\<exists>u' w'. users_ensureUserExists example_world_booked = (Inr (Some u'), w')
                 \<and> u_email u' = ''ada@example.org'' \<and> u_firstName u' = c_firstName example_clerk
                 \<and> u_lastName u' = c_lastName example_clerk)
        \<and> fst (ensureUserExists (c_id example_clerk) example_world_booked) = Inr ?u"
    by fastforce
  then have "(\<exists>u' w'. users_ensureUserExists example_world_booked = (Inr (Some u'), w')
                 \<and> u_email u' = ''ada@example.org'' \<and> u_firstName u' = Some ''Ada''
                 \<and> u_lastName u' = Some ''Lovelace'')
        \<and> fst (ensureUserExists (c_id example_clerk) example_world_booked) = Inr ?u"
    by (simp add: example_clerk_def)
  then have existing:
    "\<exists>u. find (\<lambda>x. u_clerkId x = c_id example_clerk) (users example_world_booked) = Some u
          \<and> u_email u = ''old@example.org''
          \<and> (\<exists>u' w'. users_ensureUserExists example_world_booked = (Inr (Some u'), w')
                 \<and> u_email u' = ''ada@example.org'' \<and> u_firstName u' = Some ''Ada''
                 \<and> u_lastName u' = Some ''Lovelace'')
          \<and> fst (ensureUserExists (c_id example_clerk) example_world_booked) = Inr u"
    using f by simp
  have c0: "clerkUser example_world = Some example_clerk"
    by (simp add: example_world_def)
  have nf0: "\<not> faulty example_world (calls example_world)"
    and nf1: "\<not> faulty example_world (Suc (calls example_world))"
    by (simp_all add: example_world_def)
  have n0: "find (\<lambda>x. u_clerkId x = c_id example_clerk) (users example_world) = None"
    by (simp add: example_world_def)
  from user_sync_on_existing_row [OF c0 e nf0] n0 nf1
  have absent: "\<exists>u w'. ensureUserExists (c_id example_clerk) example_world = (Inr u, w')
          \<and> users w' = users example_world @ [u]"
    by blast
  from c e nf existing c0 nf0 nf1 n0 absent show ?thesis by blast
qed

text \<open>
  C9 as stated fails for the phone: the provider's profile has no phone number, yet the
  row keeps the phone it had; it is not refreshed from the provider.
\<close>

theorem users_sync_phone_not_refreshed_counterexample:
  "c_phoneNumbers example_clerk = []
   \<and> map u_phone (users example_world_booked) = [Some ''555-0100'']
   \<and> fst (users_ensureUserExists example_world_booked)
       = Inr (Some \<lparr>u_id = 0, u_clerkId = ''user_1'', u_email = ''ada@example.org'',
                    u_firstName = Some ''Ada'', u_lastName = Some ''Lovelace'',
                    u_phone = Some ''555-0100''\<rparr>)
   \<and> map u_phone (users (snd (users_ensureUserExists example_world_booked))) = [Some ''555-0100'']"
  by (simp add: users_ensureUserExists_def users_ensureUserExists_try_def try_catch_def bind_def
        currentUser_def return_def prisma_user_upsert_def dbCall_cases apply_user_update_def
        users_update_data_def example_world_booked_def example_world_def example_clerk_def)

subsection \<open>First-time calls of the sync of the appointment actions\<close>

lemma find_None_filter: "find P xs = None \<Longrightarrow> filter P xs = []"
  by (induction xs) (auto split: if_splits)

lemma ensureUserExists_twice_one_row:
  assumes "find (\<lambda>x. u_clerkId x = cid) (users w) = None"
      and "ensureUserExists cid w = (Inr u, w1)"
      and "ensureUserExists cid w1 = (Inr u', w2)"
  shows "u' = u \<and> filter (\<lambda>x. u_clerkId x = cid) (users w2) = [u]"
proof -
  from ensureUserExists_Inr [OF assms(2)]
  have 1: "find (\<lambda>x. u_clerkId x = cid) (users w1) = Some u"
    and 2: "users w1 = users w \<or> users w1 = users w @ [u]" by simp_all
  from 1 assms(1) 2 have 3: "users w1 = users w @ [u]" by auto
  from ensureUserExists_Inr [OF assms(3)]
  have 4: "find (\<lambda>x. u_clerkId x = cid) (users w2) = Some u'"
    and 5: "users w2 = users w1 \<or> users w2 = users w1 @ [u']" by simp_all
  have 6: "users w2 = users w1"
    using assms(3) 1
    by (auto simp: ensureUserExists_def ensureUserExists_lookup_def ensureUserExists_resume_def
          bind_def currentUser_def throw_def return_def prisma_user_findUnique_def dbCall_cases
        split: option.splits if_splits)
  from 4 6 1 have "u' = u" by simp
  moreover from find_Some_mem [OF 1] have "u_clerkId u = cid" by simp
  ultimately show ?thesis using 6 3 find_None_filter [OF assms(1)] by simp
qed

text \<open>
  C7. The sync of the appointment actions is a lookup followed by a create, two
  persistence calls, where the sync of the user actions is one \<open>upsert\<close>. When two
  first-time calls for the same external id both get the answer of their lookup before
  either creates the row, the first create succeeds and the second is rejected by the
  unique key: the second call fails. (One call after the other leaves exactly one row,
  \<open>ensureUserExists_twice_one_row\<close>.)
\<close>

theorem ensureUserExists_interleaved_first_calls:
  "\<exists>k1 w1 k2 w2 u1 w3 w4.
      ensureUserExists_lookup ''user_1'' example_world = (Inr k1, w1) \<and> snd k1 = None
    \<and> ensureUserExists_lookup ''user_1'' w1 = (Inr k2, w2) \<and> snd k2 = None
    \<and> ensureUserExists_resume ''user_1'' k1 w2 = (Inr u1, w3)
    \<and> ensureUserExists_resume ''user_1'' k2 w3 = (Inl (PrismaError UniqueConstraint), w4)
    \<and> calls (snd (ensureUserExists ''user_1'' example_world)) = calls example_world + 2
    \<and> calls (snd (users_ensureUserExists example_world)) = calls example_world + 1"
  by (simp add: ensureUserExists_def users_ensureUserExists_def users_ensureUserExists_try_def
        try_catch_def prisma_user_upsert_def ensureUserExists_lookup_def ensureUserExists_resume_def bind_def currentUser_def
        return_def throw_def prisma_user_findUnique_def prisma_user_create_def dbCall_cases
        console_log_def ensureUserExists_data_def new_user_def Let_def
        example_world_def example_clerk_def)

section \<open>Returned records\<close>

subsection \<open>Evaluating the date of the example\<close>

lemma digits_numeral:
  "digits (numeral k) n = digits (pred_numeral k) (n div 10) @ [''0123456789'' ! (n mod 10)]"
  unfolding numeral_eq_Suc [of k] by (simp only: digits.simps)

lemma digits_1: "digits 1 n = [''0123456789'' ! (n mod 10)]"
  unfolding One_nat_def by (simp only: digits.simps append_Nil)

lemma example_day: "(1717200000000::int) div msPerDay = 19875"
  by (simp add: msPerDay_def)

lemma example_utcDate: "utcDate 19875 = (2024, 6, 1)"
  unfolding utcDate_def Let_def by simp

lemma example_isoDate: "isoDate 1717200000000 = ''2024-06-01''"
  by (simp add: isoDate_def example_day example_utcDate isoYear_def digits_numeral digits_1)

subsection \<open>The fields of a transformed record\<close>

lemma transformAppointment_Inr:
  assumes "transformAppointment x = Inr v"
  shows "v_id v = a_id (i_row x) \<and> v_userId v = a_userId (i_row x)
       \<and> v_doctorId v = a_doctorId (i_row x) \<and> v_time v = a_time (i_row x)
       \<and> v_reason v = a_reason (i_row x) \<and> v_status v = a_status (i_row x)
       \<and> v_createdAt v = a_createdAt (i_row x) \<and> v_date v = isoDate (a_date (i_row x))
       \<and> (\<exists>usr doc. i_user x = Some usr \<and> i_doctor x = Some doc
             \<and> patientName v = trim (or_else (s_firstName usr) [] @ '' '' @ or_else (s_lastName usr) [])
             \<and> patientEmail v = s_email usr
             \<and> doctorName v = s_name doc \<and> doctorImageUrl v = or_else (s_imageUrl doc) [])"
  using assms
  by (auto simp: transformAppointment_def split_T_0_toISOString split: option.splits)

lemma views_of_rows:
  "map_throwing transformAppointment (map (include_user_doctor w) rows) = Inr vs \<Longrightarrow>
     map v_id vs = map a_id rows \<and> map v_time vs = map a_time rows
     \<and> map v_createdAt vs = map a_createdAt rows
     \<and> map v_date vs = map (\<lambda>a. isoDate (a_date a)) rows"
proof (induction rows arbitrary: vs)
  case Nil
  then show ?case by simp
next
  case (Cons a rows)
  from Cons.prems obtain v vs' where
    v: "transformAppointment (include_user_doctor w a) = Inr v"
    and vs': "map_throwing transformAppointment (map (include_user_doctor w) rows) = Inr vs'"
    and vs: "vs = v # vs'"
    by (auto split: sum.splits)
  from transformAppointment_Inr [OF v] Cons.IH [OF vs'] vs show ?case by simp
qed

section \<open>The order of the appointment lists\<close>

lemma getAppointments_Inr:
  assumes "fst (getAppointments w) = Inr vs"
  shows "map_throwing transformAppointment
           (map (include_user_doctor (w\<lparr>calls := Suc (calls w)\<rparr>))
              (order_rows CreatedAtDesc (filter (\<lambda>a. True) (appointments w)))) = Inr vs"
  using assms
  by (auto simp: getAppointments_def getAppointments_try_def try_catch_def bind_def lift_def
        prisma_appointment_findMany_cases console_log_def throw_def
      split: if_splits sum.splits prod.splits)

lemma getUserAppointments_Inr:
  assumes "fst (getUserAppointments w) = Inr vs"
  shows "\<exists>u w1. ensureUserExists (the (authUserId w)) w = (Inr u, w1)
          \<and> map_throwing transformAppointment
               (map (include_user_doctor (w1\<lparr>calls := Suc (calls w1)\<rparr>))
                  (order_rows DateAscTimeAsc (filter (\<lambda>a. a_userId a = u_id u) (appointments w1))))
              = Inr vs"
  using assms
  by (auto simp: getUserAppointments_def getUserAppointments_try_def try_catch_def bind_def
        lift_def auth_def prisma_appointment_findMany_cases console_error_def throw_def
      split: if_splits sum.splits prod.splits)

text \<open>
  C6, as the code has it. When \<open>getUserAppointments\<close> returns a list, its records are, in
  order, the views of appointment rows that are sorted ascending by (stored date, time
  label), the stored date being the instant of the row, of which the record shows the
  calendar day only; when \<open>getAppointments\<close> returns a list, it is sorted descending by
  creation time.
\<close>

theorem appointment_lists_sorted:
  "(fst (getUserAppointments w) = Inr us \<longrightarrow>
      (\<exists>rows. set rows \<subseteq> set (appointments w)
         \<and> sorted (map (\<lambda>a. (a_date a, a_time a)) rows)
         \<and> map v_id us = map a_id rows \<and> map v_time us = map a_time rows
         \<and> map v_date us = map (\<lambda>a. isoDate (a_date a)) rows))
   \<and> (fst (getAppointments w) = Inr vs \<longrightarrow>
      sorted_wrt (\<lambda>x y. v_createdAt y \<le> v_createdAt x) vs)"
proof (intro conjI impI)
  assume "fst (getUserAppointments w) = Inr us"
  from getUserAppointments_Inr [OF this] obtain u w1 where
    e: "ensureUserExists (the (authUserId w)) w = (Inr u, w1)"
    and m: "map_throwing transformAppointment
               (map (include_user_doctor (w1\<lparr>calls := Suc (calls w1)\<rparr>))
                  (order_rows DateAscTimeAsc (filter (\<lambda>a. a_userId a = u_id u) (appointments w1))))
              = Inr us"
    by blast
  let ?rows = "order_rows DateAscTimeAsc (filter (\<lambda>a. a_userId a = u_id u) (appointments w1))"
  from ensureUserExists_Inr [OF e] have "appointments w1 = appointments w" by simp
  then have "set ?rows \<subseteq> set (appointments w)" by auto
  moreover have "sorted (map (\<lambda>a. (a_date a, a_time a)) ?rows)" by simp
  ultimately show "\<exists>rows. set rows \<subseteq> set (appointments w)
         \<and> sorted (map (\<lambda>a. (a_date a, a_time a)) rows)
         \<and> map v_id us = map a_id rows \<and> map v_time us = map a_time rows
         \<and> map v_date us = map (\<lambda>a. isoDate (a_date a)) rows"
    using views_of_rows [OF m] by blast
next
  assume "fst (getAppointments w) = Inr vs"
  let ?rows = "order_rows CreatedAtDesc (filter (\<lambda>a. True) (appointments w))"
  from views_of_rows [OF getAppointments_Inr [OF \<open>fst (getAppointments w) = Inr vs\<close>]]
  have c: "map v_createdAt vs = map a_createdAt ?rows" by simp
  have "sorted (map (\<lambda>a. - a_createdAt a) ?rows)" by simp
  then have "sorted (map uminus (map a_createdAt ?rows))" by (simp add: comp_def)
  with c have "sorted (map uminus (map v_createdAt vs))" by simp
  then show "sorted_wrt (\<lambda>x y. v_createdAt y \<le> v_createdAt x) vs"
    by (simp add: sorted_wrt_map)
qed

lemma example_getUserAppointments:
  "(case fst (getUserAppointments example_world_booked) of
      Inl e \<Rightarrow> None | Inr us \<Rightarrow> Some (map v_time us, map v_date us))
    = Some ([''09:00'', ''10:00'', ''11:00''], [''2024-06-01'', ''2024-06-01'', ''2024-06-01''])"
  by (simp add: getUserAppointments_def getUserAppointments_try_def try_catch_def bind_def lift_def
        auth_def truthy_def
        ensureUserExists_def ensureUserExists_lookup_def ensureUserExists_resume_def
        currentUser_def return_def prisma_user_findUnique_def dbCall_cases
        prisma_appointment_findMany_cases transformAppointment_def include_user_doctor_def
        split_T_0_toISOString example_isoDate
        example_world_booked_def example_world_def less_eq_prod_def less_prod_def)

lemma example_getAppointments:
  "(case fst (getAppointments example_world_booked) of
      Inl e \<Rightarrow> None | Inr vs \<Rightarrow> Some (map v_id vs, map v_createdAt vs))
    = Some ([3, 2, 1], [1716200000000, 1716100000000, 1716000000000])"
  by (simp add: getAppointments_def getAppointments_try_def try_catch_def bind_def lift_def
        prisma_appointment_findMany_cases transformAppointment_def include_user_doctor_def
        example_world_booked_def example_world_def)

theorem appointment_lists_sorted_witness:
  "\<exists>us vs. fst (getUserAppointments example_world_booked) = Inr us
     \<and> map v_time us = [''09:00'', ''10:00'', ''11:00'']
     \<and> map v_date us = [''2024-06-01'', ''2024-06-01'', ''2024-06-01'']
     \<and> (\<exists>rows. set rows \<subseteq> set (appointments example_world_booked)
            \<and> sorted (map (\<lambda>a. (a_date a, a_time a)) rows)
            \<and> map v_time us = map a_time rows
            \<and> map v_date us = map (\<lambda>a. isoDate (a_date a)) rows)
     \<and> fst (getAppointments example_world_booked) = Inr vs
     \<and> map v_id vs = [3, 2, 1]
     \<and> sorted_wrt (\<lambda>x y. v_createdAt y \<le> v_createdAt x) vs"
proof -
  obtain us where
    us: "fst (getUserAppointments example_world_booked) = Inr us"
    and ut: "map v_time us = [''09:00'', ''10:00'', ''11:00'']"
    and ud: "map v_date us = [''2024-06-01'', ''2024-06-01'', ''2024-06-01'']"
    using example_getUserAppointments
    by (cases "fst (getUserAppointments example_world_booked)") simp_all
  obtain vs where
    vs: "fst (getAppointments example_world_booked) = Inr vs"
    and vi: "map v_id vs = [3, 2, 1]"
    using example_getAppointments
    by (cases "fst (getAppointments example_world_booked)") simp_all
  note t = appointment_lists_sorted [of example_world_booked us vs]
  from t us obtain rows where
    r: "set rows \<subseteq> set (appointments example_world_booked)"
       "sorted (map (\<lambda>a. (a_date a, a_time a)) rows)"
       "map v_time us = map a_time rows"
       "map v_date us = map (\<lambda>a. isoDate (a_date a)) rows"
    by blast
  from t vs have s: "sorted_wrt (\<lambda>x y. v_createdAt y \<le> v_createdAt x) vs"
    by blast
  from r have "\<exists>rows. set rows \<subseteq> set (appointments example_world_booked)
            \<and> sorted (map (\<lambda>a. (a_date a, a_time a)) rows)
            \<and> map v_time us = map a_time rows
            \<and> map v_date us = map (\<lambda>a. isoDate (a_date a)) rows"
    by blast
  with us ut ud vs vi s show ?thesis
    by (intro exI [of _ us] exI [of _ vs] conjI)
qed

section \<open>Booking: the created appointment and the returned record\<close>

lemma prisma_appointment_create_Inr:
  assumes "prisma_appointment_create d w1 = (Inr x, w')"
  shows "\<exists>dt a. ac_date d = Some dt
           \<and> a = \<lparr>a_id = nextId w1, a_userId = ac_userId d, a_doctorId = ac_doctorId d,
                   a_date = dt, a_time = ac_time d, a_reason = ac_reason d,
                   a_status = ac_status d, a_createdAt = clock w1\<rparr>
           \<and> appointments w' = appointments w1 @ [a]
           \<and> users w' = users w1 \<and> doctors w' = doctors w1
           \<and> x = include_user_doctor w' a"
  using assms
  by (auto simp: prisma_appointment_create_def throw_def dbCall_cases Let_def
      split: option.splits if_splits)

lemma bookAppointment_Inr:
  assumes "bookAppointment newDate input w = (Inr r, w')"
  shows "\<exists>u w1 x.
           ensureUserExists (the (authUserId w)) w = (Inr u, w1)
         \<and> prisma_appointment_create
               \<lparr>ac_userId = u_id u, ac_doctorId = doctorId input,
                ac_date = newDate (date input), ac_time = time input,
                ac_reason = or_else (reason input) ''General consultation'',
                ac_status = CONFIRMED\<rparr> w1 = (Inr x, w')
         \<and> transformAppointment x = Inr r"
  using assms
  by (auto simp: bookAppointment_def bookAppointment_try_def try_catch_def bind_def lift_def
        auth_def throw_def console_error_def
      split: if_splits sum.splits prod.splits)

subsection \<open>When a booking returns a record\<close>

lemma find_not_None: "x \<in> set xs \<Longrightarrow> P x \<Longrightarrow> find P xs \<noteq> None"
  by (auto simp: find_None_iff)

lemma book_after_sync:
  assumes e: "ensureUserExists cid w = (Inr u, w1)"
      and nf: "\<not> faulty w1 (calls w1)"
      and dt: "newDate (date input) = Some dt"
      and doc: "find (\<lambda>d. d_id d = doctorId input) (doctors w) \<noteq> None"
  shows "\<exists>x w'. prisma_appointment_create
               \<lparr>ac_userId = u_id u, ac_doctorId = doctorId input,
                ac_date = newDate (date input), ac_time = time input,
                ac_reason = or_else (reason input) ''General consultation'',
                ac_status = CONFIRMED\<rparr> w1 = (Inr x, w')
            \<and> (\<exists>r. transformAppointment x = Inr r)"
proof -
  from ensureUserExists_Inr [OF e] have
    f: "find (\<lambda>x. u_clerkId x = cid) (users w1) = Some u" and d: "doctors w1 = doctors w"
    by simp_all
  from find_Some_mem [OF f] have "u \<in> set (users w1)" by simp
  then have fu: "find (\<lambda>x. u_id x = u_id u) (users w1) \<noteq> None"
    by (rule find_not_None) simp
  from fu doc d nf dt show ?thesis
    by (auto simp: prisma_appointment_create_def dbCall_cases Let_def transformAppointment_def
          include_user_doctor_def)
qed

lemma bookAppointment_succeeds:
  assumes "truthy (authUserId w)"
      and "doctorId input \<noteq> []" and "date input \<noteq> []" and "time input \<noteq> []"
      and cu: "clerkUser w = Some cd" and em: "c_emailAddresses cd \<noteq> []"
      and dt: "newDate (date input) = Some dt"
      and doc: "find (\<lambda>d. d_id d = doctorId input) (doctors w) \<noteq> None"
      and nf: "\<forall>n. \<not> faulty w n"
  shows "\<exists>r w'. bookAppointment newDate input w = (Inr r, w')"
proof -
  let ?cid = "the (authUserId w)"
  have "\<exists>u w1. ensureUserExists ?cid w = (Inr u, w1) \<and> faulty w1 = faulty w"
  proof (cases "find (\<lambda>x. u_clerkId x = ?cid) (users w)")
    case None
    from em obtain e es where "c_emailAddresses cd = e # es" by (cases "c_emailAddresses cd") auto
    from ensureUserExists_created [OF cu this None] nf show ?thesis by simp
  next
    case (Some u)
    from cu have "clerkUser w \<noteq> None" by simp
    from ensureUserExists_found [OF this Some] nf show ?thesis by simp
  qed
  then obtain u w1 where e: "ensureUserExists ?cid w = (Inr u, w1)" and fw: "faulty w1 = faulty w"
    by blast
  from nf fw have "\<not> faulty w1 (calls w1)" by simp
  from book_after_sync [where newDate = newDate and input = input, OF e this dt doc] obtain x w' r where
    "prisma_appointment_create
               \<lparr>ac_userId = u_id u, ac_doctorId = doctorId input,
                ac_date = newDate (date input), ac_time = time input,
                ac_reason = or_else (reason input) ''General consultation'',
                ac_status = CONFIRMED\<rparr> w1 = (Inr x, w')"
    "transformAppointment x = Inr r"
    by blast
  with e assms(1-4) show ?thesis
    by (simp add: bookAppointment_def bookAppointment_try_def try_catch_def bind_def auth_def
          lift_def)
qed

subsection \<open>Trimming, dates and keys\<close>

lemma trim_spec:
  "\<exists>pre suf. s = pre @ trim s @ suf
      \<and> (\<forall>c\<in>set pre. isWhiteSpace c) \<and> (\<forall>c\<in>set suf. isWhiteSpace c)
      \<and> (trim s \<noteq> [] \<longrightarrow> \<not> isWhiteSpace (hd (trim s)) \<and> \<not> isWhiteSpace (last (trim s)))"
proof -
  let ?t = "dropWhile isWhiteSpace s"
  let ?pre = "takeWhile isWhiteSpace s"
  let ?suf = "rev (takeWhile isWhiteSpace (rev ?t))"
  have t: "trim s = rev (dropWhile isWhiteSpace (rev ?t))" by (simp add: trim_def)
  have "?t = rev (rev ?t)" by (simp only: rev_rev_ident)
  also have "\<dots> = rev (takeWhile isWhiteSpace (rev ?t) @ dropWhile isWhiteSpace (rev ?t))"
    by (simp only: takeWhile_dropWhile_id)
  also have "\<dots> = trim s @ ?suf" by (simp only: rev_append t)
  finally have split: "?t = trim s @ ?suf" .
  have "s = ?pre @ ?t" by simp
  with split have 1: "s = ?pre @ trim s @ ?suf" by simp
  have 2: "\<forall>c\<in>set ?pre. isWhiteSpace c" by (auto dest: set_takeWhileD)
  have 3: "\<forall>c\<in>set ?suf. isWhiteSpace c" by (auto dest: set_takeWhileD)
  have 4: "trim s \<noteq> [] \<longrightarrow> \<not> isWhiteSpace (hd (trim s)) \<and> \<not> isWhiteSpace (last (trim s))"
  proof
    assume ne: "trim s \<noteq> []"
    then have d: "dropWhile isWhiteSpace (rev ?t) \<noteq> []" by (simp add: t)
    then have "\<not> isWhiteSpace (hd (dropWhile isWhiteSpace (rev ?t)))" by (rule hd_dropWhile)
    then have l: "\<not> isWhiteSpace (last (trim s))" using d by (simp add: t last_rev)
    from ne split have tne: "?t \<noteq> []" by (metis append_is_Nil_conv)
    then have "\<not> isWhiteSpace (hd ?t)" by (rule hd_dropWhile)
    moreover from split ne have "hd ?t = hd (trim s)" by (metis hd_append2)
    ultimately show "\<not> isWhiteSpace (hd (trim s)) \<and> \<not> isWhiteSpace (last (trim s))"
      using l by simp
  qed
  from 1 2 3 4 show ?thesis by blast
qed

lemma trim_examples:
  "trim (''Ada'' @ '' '' @ [CHR 0xA0]) = ''Ada''"
  "trim (''Ada'' @ '' '' @ '''') = ''Ada''"
  "trim ('''' @ '' '' @ '''') = ''''"
  "trim (''Ada'' @ '' '' @ ''Lovelace'') = ''Ada Lovelace''"
  by (simp_all add: trim_def isWhiteSpace_def)

lemma utcDate_examples:
  "utcDate 0 = (1970, 1, 1)"
  "utcDate (-1) = (1969, 12, 31)"
  "utcDate 19782 = (2024, 2, 29)"
  "utcDate 19783 = (2024, 3, 1)"
  "utcDate 11016 = (2000, 2, 29)"
  "utcDate (-25508) = (1900, 3, 1)"
  "utcDate (-25509) = (1900, 2, 28)"
  "utcDate 20088 = (2024, 12, 31)"
  "utcDate 20089 = (2025, 1, 1)"
  "utcDate 20103 = (2025, 1, 15)"
  "utcDate 2932897 = (10000, 1, 1)"
  "utcDate (-719528) = (0, 1, 1)"
  unfolding utcDate_def Let_def by simp_all

lemma digit_char_in: "n < 10 \<Longrightarrow> ''0123456789'' ! n \<in> set ''0123456789''"
  by (intro nth_mem) simp

lemma digits_chars: "set (digits k n) \<subseteq> set ''0123456789''"
proof (induction k arbitrary: n)
  case 0
  show ?case by simp
next
  case (Suc k)
  have "''0123456789'' ! (n mod 10) \<in> set ''0123456789''"
    by (rule digit_char_in) simp
  with Suc [of "n div 10"] show ?case by auto
qed

lemma isoDate_chars: "set (isoDate t) \<subseteq> set ''0123456789-+''"
proof -
  have sub: "set ''0123456789'' \<subseteq> set ''0123456789-+''" by simp
  have d: "set (digits k n) \<subseteq> set ''0123456789-+''" for k n
    by (rule subset_trans [OF digits_chars sub])
  have m: "set ''-'' \<subseteq> set ''0123456789-+''" and p: "set ''+'' \<subseteq> set ''0123456789-+''"
    by simp_all
  have y: "set (isoYear y) \<subseteq> set ''0123456789-+''" for y
    unfolding isoYear_def using d [of 4 "nat y"] d [of 6 "nat \<bar>y\<bar>"] m p
    by (simp only: set_append Un_subset_iff simp_thms split: if_split)
  obtain y mo da where u: "utcDate (t div msPerDay) = (y, mo, da)"
    by (cases "utcDate (t div msPerDay)") auto
  have "isoDate t = isoYear y @ ''-'' @ digits 2 (nat mo) @ ''-'' @ digits 2 (nat da)"
    by (simp add: isoDate_def u)
  then show ?thesis
    using y [of y] d [of 2 "nat mo"] d [of 2 "nat da"] m
    by (simp only: set_append Un_subset_iff)
qed

lemma isoDate_same_day: "t' div msPerDay = t div msPerDay \<Longrightarrow> isoDate t' = isoDate t"
  by (simp add: isoDate_def)

lemma toISOString_split: "toISOString t = isoDate t @ ''T'' @ isoTime t @ ''Z''"
  by (simp add: toISOString_def)

lemma ensureUserExists_Inr_key:
  assumes "ensureUserExists cid w = (Inr u, w1)"
  shows "users w1 = users w \<or> (users w1 = users w @ [u] \<and> u_id u = nextId w)"
  using assms
  by (auto simp: ensureUserExists_def ensureUserExists_lookup_def ensureUserExists_resume_def
        ensureUserExists_data_def bind_def currentUser_def throw_def return_def
        prisma_user_findUnique_def prisma_user_create_def dbCall_cases Let_def console_log_def
        new_user_def
      split: option.splits if_splits list.splits sum.splits prod.splits)

lemma find_by_key:
  "distinct (map f xs) \<Longrightarrow> x \<in> set xs \<Longrightarrow> find (\<lambda>y. f y = f x) xs = Some x"
  by (induction xs) (auto simp: image_iff)

lemma ensureUserExists_keys:
  assumes e: "ensureUserExists cid w = (Inr u, w1)"
      and d: "distinct (map u_id (users w))" and b: "\<forall>x\<in>set (users w). u_id x < nextId w"
  shows "find (\<lambda>y. u_id y = u_id u) (users w1) = Some u"
proof -
  from ensureUserExists_Inr [OF e] have "find (\<lambda>x. u_clerkId x = cid) (users w1) = Some u"
    by simp
  from find_Some_mem [OF this] have m: "u \<in> set (users w1)" by simp
  have "distinct (map u_id (users w1))"
  proof (cases "users w1 = users w")
    case True
    with d show ?thesis by simp
  next
    case False
    with ensureUserExists_Inr_key [OF e] have n: "users w1 = users w @ [u]" "u_id u = nextId w"
      by simp_all
    from b n(2) have "u_id u \<notin> u_id ` set (users w)" by fastforce
    with d n(1) show ?thesis by simp
  qed
  from find_by_key [OF this m] show ?thesis .
qed

subsection \<open>The record of a booking\<close>

text \<open>
  C2. Whenever a call to \<open>bookAppointment\<close> by a signed-in caller, with non-empty
  doctorId, date and time and with the reason omitted, returns a record: exactly one
  appointment row was appended, with reason "General consultation", status CONFIRMED and
  the given doctor, time and date; the returned record carries that reason and status.
  Its \<open>patientName\<close> is the trimmed concatenation of first name, a space and last name
  of the row's user: that concatenation is \<open>patientName\<close> between a prefix and a suffix
  of white space only, and \<open>patientName\<close> neither starts nor ends with white space. That
  user is the caller (the row whose external id is the caller's) when the keys of the
  user table are distinct and below the key counter. Its date is what \<open>toISOString\<close> of
  the stored date puts before the \<open>T\<close>: year, month and day of the UTC day of the stored
  date, of digits, \<open>-\<close> and \<open>+\<close> only, the same string for every instant of that day,
  so with no time-of-day component. Its \<open>doctorName\<close> and \<open>doctorImageUrl\<close> are those of
  the row's doctor (the empty string for a doctor without image). Such a call does return
  a record when the date string is valid, a doctor with that id exists, the caller's
  profile has an email address and no persistence call fails
  (\<open>bookAppointment_succeeds\<close>).
\<close>

theorem bookAppointment_default_reason_and_view:
  assumes "truthy (authUserId w)"
      and "doctorId input \<noteq> []" and "date input \<noteq> []" and "time input \<noteq> []"
      and "reason input = None"
      and "bookAppointment newDate input w = (Inr r, w')"
  shows "\<exists>a usr doc dt.
           appointments w' = appointments w @ [a]
         \<and> a_reason a = ''General consultation'' \<and> a_status a = CONFIRMED
         \<and> a_doctorId a = doctorId input \<and> a_time a = time input
         \<and> newDate (date input) = Some dt \<and> a_date a = dt
         \<and> v_id r = a_id a \<and> v_reason r = ''General consultation'' \<and> v_status r = CONFIRMED
         \<and> find (\<lambda>u. u_id u = a_userId a) (users w') = Some usr
         \<and> (distinct (map u_id (users w)) \<and> (\<forall>x\<in>set (users w). u_id x < nextId w) \<longrightarrow>
              u_clerkId usr = the (authUserId w))
         \<and> patientName r = trim (or_else (u_firstName usr) [] @ '' '' @ or_else (u_lastName usr) [])
         \<and> (\<exists>pre suf.
               or_else (u_firstName usr) [] @ '' '' @ or_else (u_lastName usr) []
                 = pre @ patientName r @ suf
               \<and> (\<forall>c\<in>set pre. isWhiteSpace c) \<and> (\<forall>c\<in>set suf. isWhiteSpace c))
         \<and> (patientName r \<noteq> [] \<longrightarrow>
               \<not> isWhiteSpace (hd (patientName r)) \<and> \<not> isWhiteSpace (last (patientName r)))
         \<and> v_date r = isoDate dt
         \<and> toISOString dt = v_date r @ ''T'' @ isoTime dt @ ''Z''
         \<and> CHR ''T'' \<notin> set (v_date r)
         \<and> set (v_date r) \<subseteq> set ''0123456789-+''
         \<and> (\<forall>t. t div msPerDay = dt div msPerDay \<longrightarrow> isoDate t = v_date r)
         \<and> (case utcDate (dt div msPerDay) of
               (y, m, d) \<Rightarrow> v_date r = isoYear y @ ''-'' @ digits 2 (nat m) @ ''-'' @ digits 2 (nat d))
         \<and> find (\<lambda>d. d_id d = doctorId input) (doctors w') = Some doc
         \<and> doctorName r = d_name doc \<and> doctorImageUrl r = or_else (d_imageUrl doc) []"
proof -
  from bookAppointment_Inr [OF assms(6)] obtain u w1 x where
    e: "ensureUserExists (the (authUserId w)) w = (Inr u, w1)"
    and c: "prisma_appointment_create
               \<lparr>ac_userId = u_id u, ac_doctorId = doctorId input,
                ac_date = newDate (date input), ac_time = time input,
                ac_reason = or_else (reason input) ''General consultation'',
                ac_status = CONFIRMED\<rparr> w1 = (Inr x, w')"
    and t: "transformAppointment x = Inr r"
    by blast
  from prisma_appointment_create_Inr [OF c] obtain dt a where
    dt: "newDate (date input) = Some dt"
    and a: "a = \<lparr>a_id = nextId w1, a_userId = u_id u, a_doctorId = doctorId input,
                 a_date = dt, a_time = time input,
                 a_reason = or_else (reason input) ''General consultation'',
                 a_status = CONFIRMED, a_createdAt = clock w1\<rparr>"
    and ap: "appointments w' = appointments w1 @ [a]"
    and us: "users w' = users w1"
    and x: "x = include_user_doctor w' a"
    by auto
  from ensureUserExists_Inr [OF e] have ap1: "appointments w1 = appointments w"
    and fc: "find (\<lambda>x. u_clerkId x = the (authUserId w)) (users w1) = Some u" by simp_all
  from assms(5) a have ra: "a_reason a = ''General consultation''" by (simp add: or_else_def)
  from transformAppointment_Inr [OF t] x have
    f: "v_id r = a_id a" "v_reason r = a_reason a" "v_status r = a_status a"
       "v_date r = isoDate (a_date a)"
    by simp_all
  from transformAppointment_Inr [OF t] obtain us ds where
    i: "i_user x = Some us" "i_doctor x = Some ds"
       "patientName r = trim (or_else (s_firstName us) [] @ '' '' @ or_else (s_lastName us) [])"
       "doctorName r = s_name ds" "doctorImageUrl r = or_else (s_imageUrl ds) []"
    by blast
  from i(1) x obtain usr where
    usr: "find (\<lambda>u. u_id u = a_userId a) (users w') = Some usr"
         "s_firstName us = u_firstName usr" "s_lastName us = u_lastName usr"
    by (auto simp: include_user_doctor_def)
  from i(2) x a obtain doc where
    doc: "find (\<lambda>d. d_id d = doctorId input) (doctors w') = Some doc"
         "s_name ds = d_name doc" "s_imageUrl ds = d_imageUrl doc"
    by (auto simp: include_user_doctor_def)
  let ?full = "or_else (u_firstName usr) [] @ '' '' @ or_else (u_lastName usr) []"
  have pn: "patientName r = trim ?full" using i(3) usr by simp
  have caller: "distinct (map u_id (users w)) \<and> (\<forall>x\<in>set (users w). u_id x < nextId w) \<longrightarrow>
              u_clerkId usr = the (authUserId w)"
  proof
    assume k: "distinct (map u_id (users w)) \<and> (\<forall>x\<in>set (users w). u_id x < nextId w)"
    then have "find (\<lambda>y. u_id y = u_id u) (users w1) = Some u"
      using ensureUserExists_keys [OF e] by blast
    with usr(1) us a have "usr = u" by simp
    with find_Some_mem [OF fc] show "u_clerkId usr = the (authUserId w)" by simp
  qed
  from trim_spec [of ?full] obtain pre suf where
    ts: "?full = pre @ trim ?full @ suf"
        "\<forall>c\<in>set pre. isWhiteSpace c" "\<forall>c\<in>set suf. isWhiteSpace c"
        "trim ?full \<noteq> [] \<longrightarrow>
           \<not> isWhiteSpace (hd (trim ?full)) \<and> \<not> isWhiteSpace (last (trim ?full))"
    by blast
  have tr: "\<exists>pre suf. ?full = pre @ patientName r @ suf
        \<and> (\<forall>c\<in>set pre. isWhiteSpace c) \<and> (\<forall>c\<in>set suf. isWhiteSpace c)"
    unfolding pn using ts(1-3) by blast
  have ends: "patientName r \<noteq> [] \<longrightarrow>
        \<not> isWhiteSpace (hd (patientName r)) \<and> \<not> isWhiteSpace (last (patientName r))"
    unfolding pn by (rule ts(4))
  have vd: "v_date r = isoDate dt" using f a by simp
  have iso: "toISOString dt = v_date r @ ''T'' @ isoTime dt @ ''Z''"
    using vd by (simp add: toISOString_split)
  have noT: "CHR ''T'' \<notin> set (v_date r)" using vd isoDate_no_T by simp
  have chars: "set (v_date r) \<subseteq> set ''0123456789-+''"
    unfolding vd by (rule isoDate_chars)
  have day: "\<forall>t. t div msPerDay = dt div msPerDay \<longrightarrow> isoDate t = v_date r"
  proof (intro allI impI)
    fix t :: int
    assume "t div msPerDay = dt div msPerDay"
    then show "isoDate t = v_date r" unfolding vd by (rule isoDate_same_day)
  qed
  have form: "case utcDate (dt div msPerDay) of
               (y, m, d) \<Rightarrow> v_date r = isoYear y @ ''-'' @ digits 2 (nat m) @ ''-'' @ digits 2 (nat d)"
    unfolding vd by (simp add: isoDate_def split: prod.splits)
  have "appointments w' = appointments w @ [a]" using ap ap1 by simp
  moreover have "a_status a = CONFIRMED" "a_doctorId a = doctorId input" "a_time a = time input"
    "a_date a = dt" using a by simp_all
  moreover have "v_reason r = ''General consultation''" using f ra by simp
  moreover have "v_status r = CONFIRMED" using f a by simp
  moreover have "doctorName r = d_name doc" "doctorImageUrl r = or_else (d_imageUrl doc) []"
    using i doc by simp_all
  ultimately show ?thesis
    using ra dt f(1) usr(1) doc(1) caller pn tr ends vd iso noT chars day form
    by (intro exI [of _ a] exI [of _ usr] exI [of _ doc] exI [of _ dt] conjI)
qed

lemma example_bookAppointment:
  "\<exists>r w'. bookAppointment example_newDate example_input example_world = (Inr r, w')
      \<and> patientName r = ''Ada Lovelace'' \<and> doctorName r = ''Dr. Grace''
      \<and> v_date r = ''2024-06-01''"
  by (simp add: bookAppointment_def bookAppointment_try_def try_catch_def bind_def lift_def
        auth_def truthy_def or_else_def trim_def isWhiteSpace_def
        ensureUserExists_def ensureUserExists_lookup_def ensureUserExists_resume_def
        ensureUserExists_data_def new_user_def console_log_def or_empty_def
        currentUser_def return_def prisma_user_findUnique_def prisma_user_create_def dbCall_cases
        prisma_appointment_create_def transformAppointment_def include_user_doctor_def Let_def
        split_T_0_toISOString example_isoDate
        example_world_def example_input_def example_newDate_def example_clerk_def)

lemma example_day_timed: "(1717237800000::int) div msPerDay = 19875"
  by (simp add: msPerDay_def)

lemma example_isoDate_timed: "isoDate 1717237800000 = ''2024-06-01''"
  by (simp add: isoDate_def example_day_timed example_utcDate isoYear_def digits_numeral digits_1)

lemma example_day_later: "(1736899200000::int) div msPerDay = 20103"
  by (simp add: msPerDay_def)

lemma example_isoDate_later: "isoDate 1736899200000 = ''2025-01-15''"
  by (simp add: isoDate_def example_day_later utcDate_examples isoYear_def digits_numeral digits_1)

lemma example_bookAppointment_nbsp:
  "\<exists>r w'. bookAppointment example_newDate example_input_timed example_world_nbsp = (Inr r, w')
      \<and> patientName r = ''Ada'' \<and> doctorName r = ''Dr. Grace''
      \<and> v_date r = ''2024-06-01''"
  by (simp add: bookAppointment_def bookAppointment_try_def try_catch_def bind_def lift_def
        auth_def truthy_def or_else_def trim_def isWhiteSpace_def
        ensureUserExists_def ensureUserExists_lookup_def ensureUserExists_resume_def
        currentUser_def return_def prisma_user_findUnique_def dbCall_cases
        prisma_appointment_create_def transformAppointment_def include_user_doctor_def Let_def
        split_T_0_toISOString example_isoDate_timed
        example_world_nbsp_def example_world_def example_input_timed_def example_newDate_def
        example_clerk_def)

lemma example_bookAppointment_later:
  "\<exists>r w'. bookAppointment example_newDate example_input_later example_world = (Inr r, w')
      \<and> patientName r = ''Ada Lovelace'' \<and> doctorName r = ''Dr. Grace''
      \<and> v_date r = ''2025-01-15''"
  by (simp add: bookAppointment_def bookAppointment_try_def try_catch_def bind_def lift_def
        auth_def truthy_def or_else_def trim_def isWhiteSpace_def
        ensureUserExists_def ensureUserExists_lookup_def ensureUserExists_resume_def
        ensureUserExists_data_def new_user_def console_log_def or_empty_def
        currentUser_def return_def prisma_user_findUnique_def prisma_user_create_def dbCall_cases
        prisma_appointment_create_def transformAppointment_def include_user_doctor_def Let_def
        split_T_0_toISOString example_isoDate_later
        example_world_def example_input_later_def example_newDate_def example_clerk_def)

theorem bookAppointment_default_reason_and_view_witness:
  "truthy (authUserId example_world_nbsp)
   \<and> doctorId example_input_timed \<noteq> [] \<and> date example_input_timed \<noteq> []
   \<and> time example_input_timed \<noteq> [] \<and> reason example_input_timed = None
   \<and> distinct (map u_id (users example_world_nbsp))
   \<and> map u_id (users example_world_nbsp) = [0] \<and> nextId example_world_nbsp = 1
   \<and> (\<exists>r w'. bookAppointment example_newDate example_input_timed example_world_nbsp = (Inr r, w')
         \<and> v_reason r = ''General consultation'' \<and> v_status r = CONFIRMED
         \<and> patientName r = ''Ada'' \<and> doctorName r = ''Dr. Grace''
         \<and> v_date r = ''2024-06-01''
         \<and> (\<exists>a usr. appointments w' = appointments example_world_nbsp @ [a]
                \<and> a_reason a = ''General consultation'' \<and> a_status a = CONFIRMED
                \<and> find (\<lambda>u. u_id u = a_userId a) (users w') = Some usr
                \<and> u_clerkId usr = ''user_1''))
   \<and> doctorId example_input \<noteq> [] \<and> date example_input \<noteq> []
   \<and> time example_input \<noteq> [] \<and> reason example_input = None
   \<and> (\<exists>r w'. bookAppointment example_newDate example_input example_world = (Inr r, w')
         \<and> v_reason r = ''General consultation'' \<and> v_status r = CONFIRMED
         \<and> patientName r = ''Ada Lovelace'' \<and> doctorName r = ''Dr. Grace''
         \<and> v_date r = ''2024-06-01'')
   \<and> truthy (authUserId example_world)
   \<and> doctorId example_input_later \<noteq> [] \<and> date example_input_later \<noteq> []
   \<and> time example_input_later \<noteq> [] \<and> reason example_input_later = None
   \<and> (\<exists>r w'. bookAppointment example_newDate example_input_later example_world = (Inr r, w')
         \<and> v_reason r = ''General consultation'' \<and> v_status r = CONFIRMED
         \<and> patientName r = ''Ada Lovelace'' \<and> doctorName r = ''Dr. Grace''
         \<and> v_date r = ''2025-01-15'')"
proof -
  have h: "truthy (authUserId example_world_nbsp)" "doctorId example_input_timed \<noteq> []"
    "date example_input_timed \<noteq> []" "time example_input_timed \<noteq> []"
    "reason example_input_timed = None"
    by (simp_all add: truthy_def example_world_nbsp_def example_world_def example_input_timed_def)
  have k: "distinct (map u_id (users example_world_nbsp))
           \<and> (\<forall>x\<in>set (users example_world_nbsp). u_id x < nextId example_world_nbsp)"
    by (simp add: example_world_nbsp_def)
  have au: "the (authUserId example_world_nbsp) = ''user_1''"
    by (simp add: example_world_nbsp_def example_world_def)
  from example_bookAppointment_nbsp obtain r w' where
    b: "bookAppointment example_newDate example_input_timed example_world_nbsp = (Inr r, w')"
    and v: "patientName r = ''Ada''" "doctorName r = ''Dr. Grace''" "v_date r = ''2024-06-01''"
    by blast
  from bookAppointment_default_reason_and_view [OF h b] obtain a usr where
    t: "appointments w' = appointments example_world_nbsp @ [a]"
       "a_reason a = ''General consultation''" "a_status a = CONFIRMED"
       "v_reason r = ''General consultation''" "v_status r = CONFIRMED"
       "find (\<lambda>u. u_id u = a_userId a) (users w') = Some usr"
       "distinct (map u_id (users example_world_nbsp))
           \<and> (\<forall>x\<in>set (users example_world_nbsp). u_id x < nextId example_world_nbsp)
        \<longrightarrow> u_clerkId usr = the (authUserId example_world_nbsp)"
    by blast
  from t(7) k au have cl: "u_clerkId usr = ''user_1''" by simp
  have one: "\<exists>r w'. bookAppointment example_newDate example_input_timed example_world_nbsp = (Inr r, w')
         \<and> v_reason r = ''General consultation'' \<and> v_status r = CONFIRMED
         \<and> patientName r = ''Ada'' \<and> doctorName r = ''Dr. Grace''
         \<and> v_date r = ''2024-06-01''
         \<and> (\<exists>a usr. appointments w' = appointments example_world_nbsp @ [a]
                \<and> a_reason a = ''General consultation'' \<and> a_status a = CONFIRMED
                \<and> find (\<lambda>u. u_id u = a_userId a) (users w') = Some usr
                \<and> u_clerkId usr = ''user_1'')"
    using b v t(1-6) cl by blast
  have h2: "truthy (authUserId example_world)" "doctorId example_input_later \<noteq> []"
    "date example_input_later \<noteq> []" "time example_input_later \<noteq> []"
    "reason example_input_later = None"
    by (simp_all add: truthy_def example_world_def example_input_later_def)
  from example_bookAppointment_later obtain r2 w2 where
    b2: "bookAppointment example_newDate example_input_later example_world = (Inr r2, w2)"
    and v2: "patientName r2 = ''Ada Lovelace''" "doctorName r2 = ''Dr. Grace''"
            "v_date r2 = ''2025-01-15''"
    by blast
  from bookAppointment_default_reason_and_view [OF h2 b2] have
    t2: "v_reason r2 = ''General consultation''" "v_status r2 = CONFIRMED"
    by blast+
  have two: "\<exists>r w'. bookAppointment example_newDate example_input_later example_world = (Inr r, w')
         \<and> v_reason r = ''General consultation'' \<and> v_status r = CONFIRMED
         \<and> patientName r = ''Ada Lovelace'' \<and> doctorName r = ''Dr. Grace''
         \<and> v_date r = ''2025-01-15''"
    using b2 v2 t2 by blast
  have h0: "truthy (authUserId example_world)" "doctorId example_input \<noteq> []"
    "date example_input \<noteq> []" "time example_input \<noteq> []" "reason example_input = None"
    by (simp_all add: truthy_def example_world_def example_input_def)
  from example_bookAppointment obtain r0 w0 where
    b0: "bookAppointment example_newDate example_input example_world = (Inr r0, w0)"
    and v0: "patientName r0 = ''Ada Lovelace''" "doctorName r0 = ''Dr. Grace''"
            "v_date r0 = ''2024-06-01''"
    by blast
  from bookAppointment_default_reason_and_view [OF h0 b0] have
    t0: "v_reason r0 = ''General consultation''" "v_status r0 = CONFIRMED"
    by blast+
  have zero: "\<exists>r w'. bookAppointment example_newDate example_input example_world = (Inr r, w')
         \<and> v_reason r = ''General consultation'' \<and> v_status r = CONFIRMED
         \<and> patientName r = ''Ada Lovelace'' \<and> doctorName r = ''Dr. Grace''
         \<and> v_date r = ''2024-06-01''"
    using b0 v0 t0 by blast
  have k': "distinct (map u_id (users example_world_nbsp))"
    "map u_id (users example_world_nbsp) = [0]" "nextId example_world_nbsp = 1"
    by (simp_all add: example_world_nbsp_def)
  from h k' one h0(2-5) zero h2 two show ?thesis by (intro conjI) simp_all
qed

section \<open>Calendar days and stored dates\<close>

text \<open>The tables after the two example bookings: both appointments are CONFIRMED, for
  \<open>d1\<close>, and fall on the calendar day 2024-06-01; the second is stored with its time of
  day.\<close>

lemma example_two_bookings:
  "example_world_two_bookings =
     example_world
       \<lparr>users := [\<lparr>u_id = 0, u_clerkId = ''user_1'', u_email = ''ada@example.org'',
                   u_firstName = Some ''Ada'', u_lastName = Some ''Lovelace'', u_phone = Some []\<rparr>],
        appointments :=
          [\<lparr>a_id = 1, a_userId = 0, a_doctorId = ''d1'', a_date = 1717200000000,
            a_time = ''09:00'', a_reason = ''General consultation'', a_status = CONFIRMED,
            a_createdAt = 1717000000000\<rparr>,
           \<lparr>a_id = 2, a_userId = 0, a_doctorId = ''d1'', a_date = 1717237800000,
            a_time = ''08:00'', a_reason = ''General consultation'', a_status = CONFIRMED,
            a_createdAt = 1717000000000\<rparr>],
        nextId := 3,
        calls := 5,
        console := [ConsoleLog ''New user created in Prisma:'' (StrArg ''ada@example.org'')]\<rparr>"
  by (simp add: example_world_two_bookings_def
        bookAppointment_def bookAppointment_try_def try_catch_def bind_def lift_def
        auth_def truthy_def or_else_def or_empty_def
        ensureUserExists_def ensureUserExists_lookup_def ensureUserExists_resume_def
        ensureUserExists_data_def new_user_def console_log_def
        currentUser_def return_def prisma_user_findUnique_def prisma_user_create_def dbCall_cases
        prisma_appointment_create_def transformAppointment_def include_user_doctor_def Let_def
        example_world_def example_input_def example_input_timed_def example_newDate_def
        example_clerk_def)

text \<open>
  C3 as stated fails for the calendar date: both appointments are CONFIRMED appointments of
  \<open>d1\<close> whose date the system shows as 2024-06-01, yet the slots returned for \<open>d1\<close> and
  "2024-06-01" hold only the label of the one stored at that very instant.
\<close>

theorem getBookedTimeSlots_calendar_day_counterexample:
  "map a_doctorId (appointments example_world_two_bookings) = [''d1'', ''d1'']
   \<and> map a_status (appointments example_world_two_bookings) = [CONFIRMED, CONFIRMED]
   \<and> map isoDate (map a_date (appointments example_world_two_bookings))
       = [''2024-06-01'', ''2024-06-01'']
   \<and> map a_time (appointments example_world_two_bookings) = [''09:00'', ''08:00'']
   \<and> fst (getBookedTimeSlots example_newDate ''d1'' ''2024-06-01'' example_world_two_bookings)
       = Inr [''09:00'']"
  by (simp add: example_two_bookings getBookedTimeSlots_value example_isoDate
        example_isoDate_timed example_newDate_def example_world_def)

text \<open>
  C6 as stated fails for the dates the records carry: the user's list comes back in the
  order of the stored dates, and by (date, time label) of the returned records it is not
  sorted.
\<close>

theorem getUserAppointments_calendar_day_counterexample:
  "map_sum id (map v_date) (fst (getUserAppointments example_world_two_bookings))
     = Inr [''2024-06-01'', ''2024-06-01'']
   \<and> map_sum id (map v_time) (fst (getUserAppointments example_world_two_bookings))
     = Inr [''09:00'', ''08:00'']
   \<and> \<not> sorted [(''2024-06-01'', ''09:00''), (''2024-06-01'', ''08:00'')]"
  by (simp add: example_two_bookings
        getUserAppointments_def getUserAppointments_try_def try_catch_def bind_def lift_def
        auth_def truthy_def
        ensureUserExists_def ensureUserExists_lookup_def ensureUserExists_resume_def
        currentUser_def return_def prisma_user_findUnique_def dbCall_cases
        prisma_appointment_findMany_cases transformAppointment_def include_user_doctor_def
        split_T_0_toISOString example_isoDate example_isoDate_timed
        example_world_def less_eq_prod_def less_prod_def)

end
